theory Spec2Isabelle
  imports Complex_Main "HOL-Library.AList" "HOL-Library.Word"
begin

chapter \<open>The program\<close>

section \<open>Strings of the program\<close>

text \<open>
  A JavaScript string is a sequence of UTF-16 code units. Field identifiers and field
  values are modelled as \<open>string\<close>, that is as sequences of the code units 0 to 255;
  the messages of errors and logs, which are written in Chinese in the source, are
  modelled as lists of 16-bit code units.
\<close>

type_synonym message = "16 word list"

definition utf16 :: "string \<Rightarrow> message" where
  "utf16 s = map (\<lambda>c. of_nat (of_char c)) s"

text \<open>
  \<open>String.prototype.trim\<close> removes white space and line terminators from both ends.
  Among the code units 0 to 255 these are TAB, LF, VT, FF, CR, SPACE and NBSP.
\<close>

definition isWhiteSpace :: "char \<Rightarrow> bool" where
  "isWhiteSpace c = ((of_char c :: nat) \<in> {9, 10, 11, 12, 13, 32, 160})"

definition trim :: "string \<Rightarrow> string" where
  "trim s = rev (dropWhile isWhiteSpace (rev (dropWhile isWhiteSpace s)))"

text \<open>The regular expression classes used by the source, on one code unit.\<close>

definition isLower :: "char \<Rightarrow> bool" where
  "isLower c = (97 \<le> (of_char c :: nat) \<and> (of_char c :: nat) \<le> 122)"

definition isUpper :: "char \<Rightarrow> bool" where
  "isUpper c = (65 \<le> (of_char c :: nat) \<and> (of_char c :: nat) \<le> 90)"

definition isDigit :: "char \<Rightarrow> bool" where
  "isDigit c = (48 \<le> (of_char c :: nat) \<and> (of_char c :: nat) \<le> 57)"

section \<open>Utils.checkPasswordStrength\<close>

text \<open>
  The function returns an object \<open>{score, level, feedback}\<close>. The feedback texts are
  modelled by the criterion they report.
\<close>

datatype level = weak | fair | good | strong

datatype feedback =
    EnterPassword | NeedLength8 | NeedLowercase | NeedUppercase | NeedDigit | NeedSymbol

record strength =
  score :: nat
  level :: level
  feedback :: "feedback list"

definition levelOf :: "nat \<Rightarrow> level" where
  "levelOf sc =
     (if sc \<le> 2 then weak
      else if sc \<le> 4 then fair
      else if sc \<le> 5 then good
      else strong)"

definition checkPasswordStrength :: "string \<Rightarrow> strength" where
  "checkPasswordStrength password =
     (if password = [] then \<lparr>score = 0, level = weak, feedback = [EnterPassword]\<rparr>
      else
        let s1 = (if length password \<ge> 8 then 1 else 0);
            f1 = (if length password \<ge> 8 then [] else [NeedLength8]);
            s2 = s1 + (if length password \<ge> 12 then 1 else 0);
            s3 = s2 + (if list_ex isLower password then 1 else 0);
            f3 = f1 @ (if list_ex isLower password then [] else [NeedLowercase]);
            s4 = s3 + (if list_ex isUpper password then 1 else 0);
            f4 = f3 @ (if list_ex isUpper password then [] else [NeedUppercase]);
            s5 = s4 + (if list_ex isDigit password then 1 else 0);
            f5 = f4 @ (if list_ex isDigit password then [] else [NeedDigit]);
            s6 = s5 + (if list_ex (\<lambda>c. \<not> isLower c \<and> \<not> isUpper c \<and> \<not> isDigit c) password
                       then 1 else 0);
            f6 = f5 @ (if list_ex (\<lambda>c. \<not> isLower c \<and> \<not> isUpper c \<and> \<not> isDigit c) password
                       then [] else [NeedSymbol])
        in \<lparr>score = s6, level = levelOf s6, feedback = f6\<rparr>)"

text \<open>The five criteria the specification names, as predicates on the password.\<close>

definition hasLength8 :: "string \<Rightarrow> bool" where
  "hasLength8 p = (length p \<ge> 8)"

definition hasLower :: "string \<Rightarrow> bool" where
  "hasLower p = list_ex isLower p"

definition hasUpper :: "string \<Rightarrow> bool" where
  "hasUpper p = list_ex isUpper p"

definition hasDigit :: "string \<Rightarrow> bool" where
  "hasDigit p = list_ex isDigit p"

definition hasSymbol :: "string \<Rightarrow> bool" where
  "hasSymbol p = list_ex (\<lambda>c. \<not> isLower c \<and> \<not> isUpper c \<and> \<not> isDigit c) p"

section \<open>Numbers read from and written to strings\<close>




text \<open>\<open>n.toString()\<close> for a natural number, and \<open>padStart(2, '0')\<close> on it.\<close>

fun toDecimal :: "nat \<Rightarrow> string" where
  "toDecimal n =
     (if n < 10 then [char_of (48 + n)]
      else toDecimal (n div 10) @ [char_of (48 + n mod 10)])"

declare toDecimal.simps [simp del]


section \<open>FormProtector\<close>

text \<open>
  The state of the module and of its collaborators:
  \<^item> \<open>savedFormState\<close>, the snapshot: an object with string keys, modelled as an
    association list in insertion order;
  \<^item> \<open>document\<close>, the live fields: \<open>document st id\<close> is the value of the element
    \<open>id\<close>, or \<open>None\<close> when \<open>getElementById\<close> finds no element. Assigning
    \<open>field.value\<close> is modelled as storing the string;
  \<^item> \<open>dayOptions\<close>, the option values of the select element \<open>birth-day\<close>;
  \<^item> \<open>dispatched\<close>, the notifications sent by \<open>dispatchEvent\<close>, as pairs of
    field and event type, oldest first. The listeners that receive them are not modelled;
  \<^item> \<open>pendingDayUpdates\<close>, the number of calls of \<open>updateBirthDaysAndRestore\<close>
    scheduled by \<open>setTimeout\<close> and not yet run.
\<close>

record formProtector =
  savedFormState :: "(string \<times> string) list"
  document :: "string \<Rightarrow> string option"
  dayOptions :: "string list"
  dispatched :: "(string \<times> string) list"
  pendingDayUpdates :: nat

text \<open>What a JavaScript function of the module returns.\<close>

datatype jsValue = Boolean bool | Number int

definition protectedFields :: "string list" where
  "protectedFields =
     [''first-name'', ''last-name'', ''desired-email'', ''password'',
      ''birth-year'', ''birth-month'', ''birth-day'', ''country'']"

text \<open>
  The test \<open>v && v.trim() !== ''\<close> on a value that is a string or undefined
  (\<open>None\<close>).
\<close>

definition nonBlank :: "string option \<Rightarrow> bool" where
  "nonBlank v = (case v of None \<Rightarrow> False | Some s \<Rightarrow> s \<noteq> [] \<and> trim s \<noteq> [])"

definition truthy :: "string option \<Rightarrow> bool" where
  "truthy v = (case v of None \<Rightarrow> False | Some s \<Rightarrow> s \<noteq> [])"

definition saveFieldValue :: "string \<Rightarrow> string \<Rightarrow> formProtector \<Rightarrow> formProtector" where
  "saveFieldValue fieldId v st = st\<lparr>savedFormState := AList.update fieldId v (savedFormState st)\<rparr>"

definition saveAllValues :: "formProtector \<Rightarrow> formProtector" where
  "saveAllValues st =
     foldl (\<lambda>s fieldId. case document s fieldId of
                              None \<Rightarrow> s
                            | Some v \<Rightarrow> s\<lparr>savedFormState := AList.update fieldId v (savedFormState s)\<rparr>)
       st protectedFields"

text \<open>One round of the loop of \<open>restoreAllValues\<close>, on the state and the counter.\<close>

definition restoreField :: "formProtector \<times> nat \<Rightarrow> string \<Rightarrow> formProtector \<times> nat" where
  "restoreField acc fieldId =
     (let st = fst acc; restoredCount = snd acc;
          savedValue = map_of (savedFormState st) fieldId
      in if document st fieldId \<noteq> None \<and> nonBlank savedValue
         then (st\<lparr>document := (document st)(fieldId := savedValue),
                   dispatched := dispatched st @ [(fieldId, ''input''), (fieldId, ''change'')]\<rparr>,
               restoredCount + 1)
         else (st, restoredCount))"

definition restoreAllValues :: "formProtector \<Rightarrow> jsValue \<times> formProtector" where
  "restoreAllValues st =
     (let (st1, restoredCount) = foldl restoreField (st, 0) protectedFields;
          st2 = (if truthy (map_of (savedFormState st1) ''birth-month'')
                 then st1\<lparr>pendingDayUpdates := pendingDayUpdates st1 + 1\<rparr>
                 else st1)
      in (Boolean (restoredCount > 0), st2))"




definition hasValidSavedData :: "formProtector \<Rightarrow> bool" where
  "hasValidSavedData st =
     (length (savedFormState st) > 0 \<and> list_ex (\<lambda>kv. nonBlank (Some (snd kv))) (savedFormState st))"

text \<open>
  \<open>checkFormCleared\<close> divides two counts and compares the quotient with 0.5. The
  quotient is taken in the reals; the division of zero by zero, NaN in the source,
  is 0 here, and neither is greater than 0.5.
\<close>

definition countFields :: "formProtector \<Rightarrow> nat \<times> nat" where
  "countFields st =
     foldl (\<lambda>acc fieldId.
              case document st fieldId of
                None \<Rightarrow> acc
              | Some v \<Rightarrow> (if v = [] \<or> trim v = [] then fst acc + 1 else fst acc, snd acc + 1))
       (0, 0) protectedFields"

definition checkFormCleared :: "formProtector \<Rightarrow> bool" where
  "checkFormCleared st =
     (let (emptyCount, totalCount) = countFields st;
          clearRate = (of_nat emptyCount / of_nat totalCount :: real)
      in clearRate > 1 / 2 \<and> hasValidSavedData st)"

definition clearSavedData :: "formProtector \<Rightarrow> formProtector" where
  "clearSavedData st = st\<lparr>savedFormState := []\<rparr>"

definition getSavedData :: "formProtector \<Rightarrow> (string \<times> string) list" where
  "getSavedData st = savedFormState st"



definition emptyFields :: "formProtector \<Rightarrow> string list" where
  "emptyFields st =
     filter (\<lambda>fieldId. case document st fieldId of None \<Rightarrow> False | Some v \<Rightarrow> trim v = [])
       protectedFields"

text \<open>The timer callback of \<open>startAutoSave\<close> that runs every two seconds.\<close>

definition assessmentTick :: "formProtector \<Rightarrow> formProtector" where
  "assessmentTick st = (if checkFormCleared st then snd (restoreAllValues st) else st)"


text \<open>
  A form whose eight fields all exist, the first \<open>k\<close> of them empty and the others
  filled, with one saved value.
\<close>

definition clearedForm :: "nat \<Rightarrow> formProtector" where
  "clearedForm k =
     \<lparr>savedFormState = [(''first-name'', ''Alex'')],
      document = map_of (map (\<lambda>f. (f, [])) (take k protectedFields) @
                         map (\<lambda>f. (f, ''x'')) (drop k protectedFields)),
      dayOptions = [], dispatched = [], pendingDayUpdates = 0\<rparr>"



section \<open>The world of the orchestrator\<close>

text \<open>
  Everything the registration strategies read or change outside their arguments:
  \<^item> \<open>randomSource\<close> and \<open>drawn\<close>: the results of \<open>Math.random()\<close>. The source is
    a sequence of reals, \<open>drawn\<close> counts the calls made so far, and a call returns
    the fractional part of the next element, a number in the interval from 0 (included)
    to 1 (excluded). Arithmetic on the draws is exact;
  \<^item> \<open>clock\<close>: the value of \<open>Date.now()\<close>, advanced by every awaited timer;
  \<^item> \<open>events\<close>: what the program did to its observers, oldest first;
  \<^item> \<open>uiManager\<close>: whether \<open>window.UIManager\<close> exists;
  \<^item> \<open>stats\<close>, \<open>currentStrategy\<close> and \<open>currentFormData\<close>: the properties of the
    object \<open>RegistrationStrategies\<close>. The object \<open>stats.strategyPerformance\<close> is an
    association list in the order in which \<open>Object.entries\<close> enumerates it.
\<close>

datatype event =
    Suspend int
  | Console message
  | UiLog string message
  | UiProgress nat message
  | UiTodayCount

record counters =
  attempts :: nat
  successes :: nat
  failures :: nat

record stats = counters +
  strategyPerformance :: "(string \<times> counters) list"

type_synonym formData = "string \<Rightarrow> string option"

record world =
  randomSource :: "nat \<Rightarrow> real"
  drawn :: nat
  clock :: int
  events :: "event list"
  uiManager :: bool
  stats :: stats
  currentStrategy :: string
  currentFormData :: "formData option"

datatype error = Error message

definition mathRandom :: "world \<Rightarrow> real \<times> world" where
  "mathRandom w = (frac (randomSource w (drawn w)), w\<lparr>drawn := drawn w + 1\<rparr>)"

definition emit :: "event list \<Rightarrow> world \<Rightarrow> world" where
  "emit es w = w\<lparr>events := events w @ es\<rparr>"

text \<open>An array read \<open>xs[i]\<close>: undefined, \<open>None\<close>, outside the array.\<close>

definition arrayAt :: "'a list \<Rightarrow> int \<Rightarrow> 'a option" where
  "arrayAt xs i = (if 0 \<le> i \<and> i < int (length xs) then Some (xs ! nat i) else None)"

text \<open>A template literal prints an undefined value as the word \<open>undefined\<close>.\<close>

definition interpolate :: "string option \<Rightarrow> string" where
  "interpolate v = (case v of None \<Rightarrow> ''undefined'' | Some s \<Rightarrow> s)"

section \<open>Utils: delays, random data, retry\<close>

text \<open>
  Awaiting \<open>Utils.delay(ms)\<close> suspends the caller until a timer of \<open>ms\<close>
  milliseconds has fired.
\<close>

definition delay :: "int \<Rightarrow> world \<Rightarrow> world" where
  "delay ms w = w\<lparr>clock := clock w + ms, events := events w @ [Suspend ms]\<rparr>"

definition randomDelayMs :: "int \<Rightarrow> int \<Rightarrow> real \<Rightarrow> int" where
  "randomDelayMs lo hi r = \<lfloor>r * of_int (hi - lo + 1)\<rfloor> + lo"

definition randomDelay :: "int \<Rightarrow> int \<Rightarrow> world \<Rightarrow> world" where
  "randomDelay lo hi w = (let (r, w1) = mathRandom w in delay (randomDelayMs lo hi r) w1)"

definition userAgents :: "string list" where
  "userAgents =
     [''Mozilla/5.0 (Windows NT 10.0; Win64; x64) AppleWebKit/537.36 (KHTML, like Gecko) Chrome/120.0.0.0 Safari/537.36'',
      ''Mozilla/5.0 (Windows NT 10.0; Win64; x64) AppleWebKit/537.36 (KHTML, like Gecko) Chrome/119.0.0.0 Safari/537.36'',
      ''Mozilla/5.0 (Macintosh; Intel Mac OS X 10_15_7) AppleWebKit/537.36 (KHTML, like Gecko) Chrome/120.0.0.0 Safari/537.36'',
      ''Mozilla/5.0 (Windows NT 10.0; Win64; x64; rv:109.0) Gecko/20100101 Firefox/120.0'',
      ''Mozilla/5.0 (Macintosh; Intel Mac OS X 10_15_7) AppleWebKit/605.1.15 (KHTML, like Gecko) Version/17.1 Safari/605.1.15'']"

definition getRandomUserAgent :: "world \<Rightarrow> string option \<times> world" where
  "getRandomUserAgent w =
     (let (r, w1) = mathRandom w
      in (arrayAt userAgents \<lfloor>r * of_nat (length userAgents)\<rfloor>, w1))"

text \<open>
  \<open>generateRandomString(length, charset)\<close> appends \<open>charset.charAt(i)\<close>, which is
  the empty string outside the charset.
\<close>

fun generateRandomString :: "nat \<Rightarrow> string \<Rightarrow> world \<Rightarrow> string \<times> world" where
  "generateRandomString 0 charset w = ([], w)"
| "generateRandomString (Suc n) charset w =
     (let (r, w1) = mathRandom w;
          c = (case arrayAt charset \<lfloor>r * of_nat (length charset)\<rfloor> of None \<Rightarrow> [] | Some x \<Rightarrow> [x]);
          (rest, w2) = generateRandomString n charset w1
      in (c @ rest, w2))"

definition defaultCharset :: string where
  "defaultCharset = ''abcdefghijklmnopqrstuvwxyz0123456789''"

text \<open>
  \<open>generateUUID\<close> replaces every \<open>x\<close> and \<open>y\<close> of its template by a hexadecimal
  digit: \<open>r = Math.random() * 16 | 0\<close>, and the digit is \<open>r\<close> for an \<open>x\<close> and
  \<open>r & 0x3 | 0x8\<close> for a \<open>y\<close>.
\<close>

definition hexDigit :: "nat \<Rightarrow> char" where
  "hexDigit d = (if d < 10 then char_of (48 + d) else char_of (87 + d))"

fun replaceXY :: "string \<Rightarrow> world \<Rightarrow> string \<times> world" where
  "replaceXY [] w = ([], w)"
| "replaceXY (c # cs) w =
     (if c = CHR ''x'' \<or> c = CHR ''y'' then
        let (rnd, w1) = mathRandom w;
            r = nat \<lfloor>rnd * 16\<rfloor>;
            v = (if c = CHR ''x'' then r else r mod 4 + 8);
            (rest, w2) = replaceXY cs w1
        in (hexDigit v # rest, w2)
      else
        let (rest, w1) = replaceXY cs w in (c # rest, w1))"

definition generateUUID :: "world \<Rightarrow> string \<times> world" where
  "generateUUID w = replaceXY ''xxxxxxxx-xxxx-4xxx-yxxx-xxxxxxxxxxxx'' w"

text \<open>
  \<open>Utils.retry(fn, maxRetries, delay)\<close>. The loop variable \<open>i\<close> is the fourth
  argument of \<open>retryLoop\<close>. A call that makes no attempt returns undefined, \<open>None\<close>.
  The warning is written by \<open>console.warn\<close> with two arguments, which the console
  prints with a space between them.
\<close>

definition retryWarning :: "nat \<Rightarrow> nat \<Rightarrow> error \<Rightarrow> message" where
  "retryWarning attempt maxRetries e =
     (case e of Error m \<Rightarrow>
        [37325, 35797, 32] @ utf16 (toDecimal attempt) @ utf16 ''/'' @ utf16 (toDecimal maxRetries)
          @ utf16 '': '' @ m)"

function retryLoop ::
  "(world \<Rightarrow> (error + 'a) \<times> world) \<Rightarrow> nat \<Rightarrow> int \<Rightarrow> nat \<Rightarrow> world \<Rightarrow> (error + 'a option) \<times> world"
where
  "retryLoop fn maxRetries d i w =
     (if i < maxRetries then
        (case fn w of
           (Inr v, w1) \<Rightarrow> (Inr (Some v), w1)
         | (Inl e, w1) \<Rightarrow>
             if i = maxRetries - 1 then (Inl e, w1)
             else retryLoop fn maxRetries d (i + 1)
                    (delay (d * int (i + 1)) (emit [Console (retryWarning (i + 1) maxRetries e)] w1)))
      else (Inr None, w))"
  by pat_completeness auto
termination
  by (relation "measure (\<lambda>(fn, maxRetries, d, i, w). maxRetries - i)") auto

declare retryLoop.simps [simp del]

definition retry ::
  "(world \<Rightarrow> (error + 'a) \<times> world) \<Rightarrow> nat \<Rightarrow> int \<Rightarrow> world \<Rightarrow> (error + 'a option) \<times> world"
where
  "retry fn maxRetries d w = retryLoop fn maxRetries d 0 w"

section \<open>RegistrationStrategies: profiles and statistics\<close>

text \<open>
  A strategy profile. Of its properties the modelled functions read the display name,
  \<open>retryCount\<close>, \<open>delayRange\<close>, \<open>randomizeData\<close> and \<open>humanLikeDelay\<close>.
\<close>

record config =
  profileName :: message
  retryCount :: nat
  delayRange :: "int \<times> int"
  randomizeData :: bool
  humanLikeDelay :: bool

definition standard :: config where
  "standard =
     \<lparr>profileName = [26631, 20934, 27169, 24335], retryCount = 3, delayRange = (1000, 3000),
      randomizeData = False, humanLikeDelay = True\<rparr>"

definition smart :: config where
  "smart =
     \<lparr>profileName = [26234, 33021, 27169, 24335], retryCount = 5, delayRange = (2000, 5000),
      randomizeData = True, humanLikeDelay = True\<rparr>"

definition aggressive :: config where
  "aggressive =
     \<lparr>profileName = [28608, 36827, 27169, 24335], retryCount = 10, delayRange = (500, 2000),
      randomizeData = True, humanLikeDelay = False\<rparr>"

text \<open>
  The objects \<open>strategies\<close> and \<open>stats.strategyPerformance\<close> are read with a key that
  the caller supplies. A JavaScript object answers such a read from its own properties
  and then from \<open>Object.prototype\<close>, so the keys below are never undefined: they yield
  a built-in function (or, for \<open>__proto__\<close>, the prototype object), which is truthy.
\<close>

definition objectPrototype :: "string list" where
  "objectPrototype =
     [''constructor'', ''__defineGetter__'', ''__defineSetter__'', ''hasOwnProperty'',
      ''__lookupGetter__'', ''__lookupSetter__'', ''isPrototypeOf'', ''propertyIsEnumerable'',
      ''toString'', ''valueOf'', ''__proto__'', ''toLocaleString'']"

text \<open>The property \<open>name\<close> of the built-in found under an inherited key.\<close>

definition inheritedName :: "string \<Rightarrow> string" where
  "inheritedName k =
     (if k = ''constructor'' then ''Object''
      else if k = ''__proto__'' then ''undefined''
      else k)"

text \<open>
  \<open>getStrategy(name)\<close> is \<open>strategies[name] || strategies.standard\<close>. Under an
  inherited key it returns the built-in, of which only \<open>name\<close> is read afterwards; its
  other properties are undefined and are given the values that are falsy.
\<close>

definition getStrategy :: "string \<Rightarrow> config" where
  "getStrategy strategyName =
     (if strategyName = ''standard'' then standard
      else if strategyName = ''smart'' then smart
      else if strategyName = ''aggressive'' then aggressive
      else if strategyName \<in> set objectPrototype then
        \<lparr>profileName = utf16 (inheritedName strategyName), retryCount = 0, delayRange = (0, 0),
         randomizeData = False, humanLikeDelay = False\<rparr>
      else standard)"

definition setStrategy :: "string \<Rightarrow> world \<Rightarrow> world" where
  "setStrategy strategyName w =
     (if strategyName \<in> {''standard'', ''smart'', ''aggressive''} \<union> set objectPrototype
      then w\<lparr>currentStrategy := strategyName,
             events := events w @
               ([Console ([91, 31574, 30053, 93, 32] @ [20999, 25442, 21040] @ profileName (getStrategy strategyName))]
                @ (if uiManager w
                   then [UiLog ''info'' ([20999, 25442, 21040] @ profileName (getStrategy strategyName))]
                   else []))\<rparr>
      else w)"

text \<open>
  \<open>logStrategy(message)\<close> writes \<open>[...] message\<close> to the console, the bracket
  holding the two characters of the word for strategy, and adds the message to the log
  of the UI manager when there is one.
\<close>

definition logStrategy :: "message \<Rightarrow> world \<Rightarrow> world" where
  "logStrategy m w =
     emit (Console ([91, 31574, 30053, 93, 32] @ m) # (if uiManager w then [UiLog ''info'' m] else [])) w"

text \<open>
  The order of the own keys of an object: the keys that are array indices (canonical
  decimal numerals up to 2^32 - 2) come first, in ascending order, and the other keys follow
  in the order of their creation.
\<close>

definition arrayIndex :: "string \<Rightarrow> int option" where
  "arrayIndex k =
     (if k \<noteq> [] \<and> list_all isDigit k \<and> (k = ''0'' \<or> hd k \<noteq> CHR ''0'') \<and> length k \<le> 10
      then (let n = foldl (\<lambda>a c. a * 10 + (of_char c - 48)) (0 :: int) k
            in if n \<le> 4294967294 then Some n else None)
      else None)"

fun insertKey :: "string \<Rightarrow> 'a \<Rightarrow> (string \<times> 'a) list \<Rightarrow> (string \<times> 'a) list" where
  "insertKey k v [] = [(k, v)]"
| "insertKey k v ((k', v') # rest) =
     (case (arrayIndex k, arrayIndex k') of
        (Some n, Some n') \<Rightarrow> if n < n' then (k, v) # (k', v') # rest else (k', v') # insertKey k v rest
      | (Some n, None) \<Rightarrow> (k, v) # (k', v') # rest
      | (None, _) \<Rightarrow> (k', v') # insertKey k v rest)"

text \<open>
  \<open>initializeStrategyStats(strategy)\<close> creates the bucket unless
  \<open>strategyPerformance[strategy]\<close> is truthy, which it is for an existing bucket and for
  an inherited key.
\<close>

definition initializeStrategyStats :: "string \<Rightarrow> world \<Rightarrow> world" where
  "initializeStrategyStats strategy w =
     (if map_of (strategyPerformance (stats w)) strategy \<noteq> None \<or> strategy \<in> set objectPrototype
      then w
      else w\<lparr>stats := (stats w)\<lparr>strategyPerformance :=
                insertKey strategy \<lparr>attempts = 0, successes = 0, failures = 0\<rparr>
                  (strategyPerformance (stats w))\<rparr>\<rparr>)"

text \<open>
  The statement \<open>strategyPerformance[strategy].counter++\<close>. When the key is inherited
  and there is no bucket of that name, the property that is incremented belongs to the
  built-in object, outside the statistics, and the model leaves the statistics as they
  are.
\<close>

definition bumpBucket :: "(counters \<Rightarrow> counters) \<Rightarrow> string \<Rightarrow> world \<Rightarrow> world" where
  "bumpBucket f strategy w =
     w\<lparr>stats := (stats w)\<lparr>strategyPerformance :=
          map (\<lambda>kv. if fst kv = strategy then (fst kv, f (snd kv)) else kv)
            (strategyPerformance (stats w))\<rparr>\<rparr>"

definition resetStats :: "world \<Rightarrow> world" where
  "resetStats w =
     w\<lparr>stats := \<lparr>attempts = 0, successes = 0, failures = 0, strategyPerformance = []\<rparr>\<rparr>"

section \<open>RegistrationStrategies: recommendStrategy\<close>

text \<open>
  The context object; a property that is absent is \<open>None\<close> and takes the default of
  the destructuring pattern. \<open>hourNow\<close> is \<open>new Date().getHours()\<close>.
\<close>

record strategyContext =
  networkSpeed :: "string option"
  previousFailures :: "int option"
  timeOfDay :: "int option"
  isVpnDetected :: "bool option"

definition successRate :: "counters \<Rightarrow> real" where
  "successRate c = of_nat (successes c) / of_nat (attempts c)"

definition bestByHistory :: "(string \<times> counters) list \<Rightarrow> string \<times> real" where
  "bestByHistory performance =
     foldl (\<lambda>best entry.
              if attempts (snd entry) > 0 \<and> successRate (snd entry) > snd best
              then (fst entry, successRate (snd entry))
              else best)
       (''standard'', 0) performance"

definition recommendStrategy :: "strategyContext \<Rightarrow> int \<Rightarrow> world \<Rightarrow> string" where
  "recommendStrategy ctx hourNow w =
     (let networkSpeed = (case networkSpeed ctx of None \<Rightarrow> ''unknown'' | Some s \<Rightarrow> s);
          previousFailures = (case previousFailures ctx of None \<Rightarrow> 0 | Some n \<Rightarrow> n);
          timeOfDay = (case timeOfDay ctx of None \<Rightarrow> hourNow | Some h \<Rightarrow> h);
          isVpnDetected = (case isVpnDetected ctx of None \<Rightarrow> False | Some b \<Rightarrow> b);
          bestStrategy = fst (bestByHistory (strategyPerformance (stats w)))
      in if previousFailures > 3 then ''aggressive''
         else if isVpnDetected \<or> networkSpeed = ''slow'' then ''smart''
         else if timeOfDay \<ge> 9 \<and> timeOfDay \<le> 17 then ''smart''
         else bestStrategy)"

text \<open>
  The fallback as the specification words it: the declared profile with the highest
  recorded success rate, the earlier declaration winning a tie, and \<open>standard\<close> when no
  profile has a recorded attempt.
\<close>

definition declaredProfiles :: "string list" where
  "declaredProfiles = [''standard'', ''smart'', ''aggressive'']"

definition specRecordedRate :: "(string \<times> counters) list \<Rightarrow> string \<Rightarrow> real option" where
  "specRecordedRate performance p =
     (case map_of performance p of
        None \<Rightarrow> None
      | Some c \<Rightarrow> if attempts c > 0 then Some (successRate c) else None)"

definition specBestByHistory :: "(string \<times> counters) list \<Rightarrow> string" where
  "specBestByHistory performance =
     (case List.map_filter (\<lambda>p. map_option (Pair p) (specRecordedRate performance p)) declaredProfiles of
        [] \<Rightarrow> ''standard''
      | first # others \<Rightarrow>
          fst (foldl (\<lambda>best q. if snd q > snd best then q else best) first others))"

section \<open>RegistrationStrategies: the steps of a pipeline\<close>

text \<open>
  The objects that travel along a pipeline. A property that may be undefined has an
  option type.
\<close>

record request =
  email_req :: string
  password_req :: "string option"
  firstName :: "string option"
  lastName :: "string option"
  birthDate :: string
  country :: "string option"
  phone :: "string option"
  userAgent :: "string option"
  timestamp_req :: int
  clientId :: "string option"
  sessionId :: "string option"

record outcome =
  success :: bool
  email :: string
  message :: message

record response = outcome +
  verificationRequired :: bool

text \<open>
  The result of a registration. Its timestamp is the time value that
  \<open>toISOString\<close> renders.
\<close>

record registration = outcome +
  password :: string
  timestamp :: int

text \<open>
  The value that a step hands to the next one. \<open>Validation\<close> is the object
  \<open>{valid: true, data: formData}\<close>.
\<close>

datatype stepValue =
    Validation formData
  | Request request
  | Response response
  | Registration registration

text \<open>
  A step \<open>{name, action}\<close>. The action receives the result of the previous step, or
  null (\<open>None\<close>) when it is the first, and either throws or returns a value.
\<close>

record 'v step =
  name :: message
  action :: "'v option \<Rightarrow> world \<Rightarrow> (error + 'v) \<times> world"

definition errorMessage :: "error \<Rightarrow> message" where
  "errorMessage e = (case e of Error m \<Rightarrow> m)"

text \<open>
  The guarded block \<open>if (updateUI && window.UIManager) { ... }\<close> of
  \<open>executeSteps\<close>, whose body sends the given notifications to the UI manager.
\<close>

definition whenUI :: "bool \<Rightarrow> event list \<Rightarrow> world \<Rightarrow> world" where
  "whenUI updateUI es w = (if updateUI \<and> uiManager w then emit es w else w)"

text \<open>
  What \<open>executeSteps\<close> does in round \<open>i\<close> before it calls the action of the step:
  it reports the step to the UI manager and, when \<open>humanLikeDelay\<close> is set and the step
  is not the first, awaits \<open>Utils.randomDelay(...config.delayRange)\<close>.
\<close>

definition beforeStep :: "'v step \<Rightarrow> nat \<Rightarrow> config \<Rightarrow> bool \<Rightarrow> world \<Rightarrow> world" where
  "beforeStep s i cfg updateUI w =
     (let w1 = whenUI updateUI
                 [UiProgress (i + 1) (name s),
                  UiLog ''info'' ([25191, 34892, 27493, 39588, 58, 32] @ name s)] w
      in if humanLikeDelay cfg \<and> i > 0
         then randomDelay (fst (delayRange cfg)) (snd (delayRange cfg)) w1
         else w1)"

definition afterStep :: "'v step \<Rightarrow> bool \<Rightarrow> world \<Rightarrow> world" where
  "afterStep s updateUI w =
     whenUI updateUI [UiLog ''success'' ([27493, 39588, 23436, 25104, 58, 32] @ name s)] w"

definition afterFailure :: "'v step \<Rightarrow> bool \<Rightarrow> error \<Rightarrow> world \<Rightarrow> world" where
  "afterFailure s updateUI e w =
     whenUI updateUI
       [UiLog ''error'' ([27493, 39588, 22833, 36133, 58, 32] @ name s @ utf16 '' - '' @ errorMessage e)] w"

text \<open>
  \<open>executeSteps(steps, config, updateUI)\<close>. The second argument of \<open>executeStepsFrom\<close>
  is the loop variable \<open>i\<close>, the last but one the variable \<open>result\<close>.
\<close>

fun executeStepsFrom ::
  "'v step list \<Rightarrow> nat \<Rightarrow> config \<Rightarrow> bool \<Rightarrow> 'v option \<Rightarrow> world \<Rightarrow> (error + 'v option) \<times> world"
where
  "executeStepsFrom [] i cfg updateUI result w = (Inr result, w)"
| "executeStepsFrom (s # steps) i cfg updateUI result w =
     (case action s result (beforeStep s i cfg updateUI w) of
        (Inl e, w1) \<Rightarrow> (Inl e, afterFailure s updateUI e w1)
      | (Inr v, w1) \<Rightarrow> executeStepsFrom steps (i + 1) cfg updateUI (Some v) (afterStep s updateUI w1))"

definition executeSteps ::
  "'v step list \<Rightarrow> config \<Rightarrow> bool \<Rightarrow> world \<Rightarrow> (error + 'v option) \<times> world"
where
  "executeSteps steps cfg updateUI w = executeStepsFrom steps 0 cfg updateUI None w"

text \<open>\<open>validateFormData\<close>; \<open>join\<close> is \<open>Array.prototype.join\<close>.\<close>

fun join :: "string \<Rightarrow> string list \<Rightarrow> string" where
  "join sep [] = []"
| "join sep [x] = x"
| "join sep (x # y # ys) = x @ sep @ join sep (y # ys)"

definition stringOf :: "string option \<Rightarrow> string" where
  "stringOf v = (case v of None \<Rightarrow> [] | Some s \<Rightarrow> s)"

definition validateFormData :: "formData \<Rightarrow> error + stepValue" where
  "validateFormData formData =
     (let required = [''desired-email'', ''password'', ''first-name'', ''last-name'', ''country''];
          missing = filter (\<lambda>field. \<not> truthy (formData field)) required
      in if length missing > 0
         then Inl (Error ([32570, 23569, 24517, 22635, 23383, 27573, 58, 32] @ utf16 (join '', '' missing)))
         else if length (stringOf (formData ''desired-email'')) < 3
         then Inl (Error [37038, 31665, 21517, 38271, 24230, 19981, 36275])
         else if level (checkPasswordStrength (stringOf (formData ''password''))) = weak
         then Inl (Error [23494, 30721, 24378, 24230, 19981, 36275])
         else Inr (Validation formData))"

definition prepareRequest :: "formData \<Rightarrow> config \<Rightarrow> world \<Rightarrow> request \<times> world" where
  "prepareRequest formData cfg w =
     (let (ua, w1) = getRandomUserAgent w;
          requestData =
            \<lparr>email_req = interpolate (formData ''desired-email'') @ ''@outlook.com'',
             password_req = formData ''password'',
             firstName = formData ''first-name'',
             lastName = formData ''last-name'',
             birthDate = interpolate (formData ''birth-year'') @ ''-''
                           @ interpolate (formData ''birth-month'') @ ''-''
                           @ interpolate (formData ''birth-day''),
             country = formData ''country'',
             phone = (if truthy (formData ''phone'')
                      then Some (interpolate (formData ''phone-country'') @ interpolate (formData ''phone''))
                      else None),
             userAgent = ua,
             timestamp_req = clock w1,
             clientId = None,
             sessionId = None\<rparr>
      in if randomizeData cfg
         then (let (uuid, w2) = generateUUID w1;
                   (sid, w3) = generateRandomString 16 defaultCharset w2
               in (requestData\<lparr>clientId := Some uuid, sessionId := Some sid\<rparr>, w3))
         else (requestData, w1))"

text \<open>
  The mocked submission. The literals 0.2 and 0.7 of the source are the thresholds; the
  thrown message is drawn from a table of five.
\<close>

definition submissionErrors :: "message list" where
  "submissionErrors =
     [[37038, 31665, 24050, 23384, 22312],
      [32593, 32476, 36830, 25509, 36229, 26102],
      [26381, 21153, 22120, 26242, 26102, 19981, 21487, 29992],
      [39564, 35777, 30721, 38169, 35823],
      [35831, 27714, 39057, 29575, 36807, 39640]]"

definition messageOf :: "message option \<Rightarrow> message" where
  "messageOf m = (case m of None \<Rightarrow> utf16 ''undefined'' | Some x \<Rightarrow> x)"

definition submitRegistration :: "request \<Rightarrow> config \<Rightarrow> world \<Rightarrow> (error + response) \<times> world" where
  "submitRegistration requestData cfg w =
     (let w1 = logStrategy [25552, 20132, 27880, 20876, 35831, 27714, 46, 46, 46] w;
          w2 = randomDelay 2000 5000 w1;
          (r, w3) = mathRandom w2
      in if r > 2 / 10
         then (let (v, w4) = mathRandom w3
               in (Inr \<lparr>success = True, email = email_req requestData,
                        message = [27880, 20876, 25104, 21151],
                        verificationRequired = (v > 7 / 10)\<rparr>, w4))
         else (let (k, w4) = mathRandom w3
               in (Inl (Error (messageOf (arrayAt submissionErrors
                                 \<lfloor>k * of_nat (length submissionErrors)\<rfloor>))), w4)))"

definition submitRegistrationWithRetry ::
  "request \<Rightarrow> config \<Rightarrow> world \<Rightarrow> (error + response option) \<times> world"
where
  "submitRegistrationWithRetry requestData cfg w =
     retry (submitRegistration requestData cfg) (retryCount cfg) 2000 w"

definition validateResponse :: "response \<Rightarrow> world \<Rightarrow> (error + response) \<times> world" where
  "validateResponse resp w =
     (if \<not> success resp
      then (Inl (Error (if message resp \<noteq> [] then message resp else [27880, 20876, 22833, 36133])), w)
      else (Inr resp,
            if verificationRequired resp
            then logStrategy [38656, 35201, 37038, 31665, 39564, 35777, 65292, 35831, 26816, 26597, 37038, 31665] w
            else w))"

text \<open>
  \<open>finalizeRegistration\<close> takes the password from \<open>this.currentFormData\<close>, and four
  asterisks when that object or its password is missing.
\<close>

definition finalizeRegistration :: "response \<Rightarrow> world \<Rightarrow> registration \<times> world" where
  "finalizeRegistration data w =
     (let result =
            \<lparr>success = True, email = email data, message = message data,
             password = (case currentFormData w of
                           None \<Rightarrow> ''****''
                         | Some fd \<Rightarrow> if truthy (fd ''password'') then stringOf (fd ''password'') else ''****''),
             timestamp = clock w\<rparr>;
          w1 = (if uiManager w then emit [UiTodayCount] w else w)
      in (result, logStrategy [27880, 20876, 27969, 31243, 23436, 25104] w1))"

text \<open>
  The error that JavaScript throws when a property of null or undefined is read. The
  standard pipeline never passes such a value to a step that reads one.
\<close>

definition typeError :: error where
  "typeError = Error (utf16 ''TypeError'')"

text \<open>
  The five steps of \<open>executeStandardStrategy\<close>. A step reads from its argument the
  properties of the object that the previous step returned.
\<close>

definition standardSteps :: "formData \<Rightarrow> config \<Rightarrow> stepValue step list" where
  "standardSteps formData cfg =
     [\<lparr>name = [39564, 35777, 21442, 25968],
       action = (\<lambda>_ w. (validateFormData formData, w))\<rparr>,
      \<lparr>name = [20934, 22791, 35831, 27714],
       action = (\<lambda>_ w. let (r, w1) = prepareRequest formData cfg w in (Inr (Request r), w1))\<rparr>,
      \<lparr>name = [25552, 20132, 27880, 20876],
       action = (\<lambda>v w. case v of
                         Some (Request r) \<Rightarrow>
                           (case submitRegistration r cfg w of
                              (Inl e, w1) \<Rightarrow> (Inl e, w1)
                            | (Inr resp, w1) \<Rightarrow> (Inr (Response resp), w1))
                       | _ \<Rightarrow> (Inl typeError, w))\<rparr>,
      \<lparr>name = [39564, 35777, 32467, 26524],
       action = (\<lambda>v w. case v of
                         Some (Response resp) \<Rightarrow>
                           (case validateResponse resp w of
                              (Inl e, w1) \<Rightarrow> (Inl e, w1)
                            | (Inr resp1, w1) \<Rightarrow> (Inr (Response resp1), w1))
                       | _ \<Rightarrow> (Inl typeError, w))\<rparr>,
      \<lparr>name = [23436, 25104, 27880, 20876],
       action = (\<lambda>v w. case v of
                         Some (Response resp) \<Rightarrow>
                           (let (r, w1) = finalizeRegistration resp w in (Inr (Registration r), w1))
                       | _ \<Rightarrow> (Inl typeError, w))\<rparr>]"

definition executeStandardStrategy ::
  "formData \<Rightarrow> config \<Rightarrow> world \<Rightarrow> (error + stepValue option) \<times> world"
where
  "executeStandardStrategy formData cfg w = executeSteps (standardSteps formData cfg) cfg True w"

section \<open>RegistrationStrategies: executeStrategy\<close>

text \<open>
  The smart pipeline probes the browser (navigator, screen, canvas) and the aggressive
  pipeline races three concurrent attempts; both are parameters of the model.
\<close>

type_synonym pipeline = "formData \<Rightarrow> config \<Rightarrow> world \<Rightarrow> (error + stepValue option) \<times> world"

record pipelines =
  executeSmartStrategy :: pipeline
  executeAggressiveStrategy :: pipeline

definition executeStrategy ::
  "pipelines \<Rightarrow> formData \<Rightarrow> string \<Rightarrow> world \<Rightarrow> (error + stepValue option) \<times> world"
where
  "executeStrategy ps formData strategy w =
     (let cfg = getStrategy strategy;
          w1 = w\<lparr>stats := (stats w)\<lparr>attempts := attempts (stats w) + 1\<rparr>\<rparr>;
          w2 = initializeStrategyStats strategy w1;
          w3 = bumpBucket (\<lambda>c. c\<lparr>attempts := attempts c + 1\<rparr>) strategy w2;
          w4 = logStrategy ([24320, 22987, 25191, 34892] @ profileName cfg) w3;
          run = (if strategy = ''standard'' then executeStandardStrategy formData cfg w4
                 else if strategy = ''smart'' then executeSmartStrategy ps formData cfg w4
                 else if strategy = ''aggressive'' then executeAggressiveStrategy ps formData cfg w4
                 else (Inl (Error ([26410, 30693, 31574, 30053, 58, 32] @ utf16 strategy)), w4))
      in case run of
           (Inr result, w5) \<Rightarrow>
             (Inr result,
              logStrategy (profileName cfg @ [25191, 34892, 25104, 21151])
                (bumpBucket (\<lambda>c. c\<lparr>successes := successes c + 1\<rparr>) strategy
                   (w5\<lparr>stats := (stats w5)\<lparr>successes := successes (stats w5) + 1\<rparr>\<rparr>)))
         | (Inl e, w5) \<Rightarrow>
             (Inl e,
              logStrategy (profileName cfg @ [25191, 34892, 22833, 36133, 58, 32] @ errorMessage e)
                (bumpBucket (\<lambda>c. c\<lparr>failures := failures c + 1\<rparr>) strategy
                   (w5\<lparr>stats := (stats w5)\<lparr>failures := failures (stats w5) + 1\<rparr>\<rparr>))))"

text \<open>
  \<open>OutlookRegistration.executeRegistration\<close> stores the form data in
  \<open>currentFormData\<close> and then calls \<open>executeStrategy\<close>.
\<close>

definition executeRegistration ::
  "pipelines \<Rightarrow> formData \<Rightarrow> string \<Rightarrow> world \<Rightarrow> (error + stepValue option) \<times> world"
where
  "executeRegistration ps formData strategy w =
     executeStrategy ps formData strategy (w\<lparr>currentFormData := Some formData\<rparr>)"

section \<open>Example inputs\<close>

text \<open>The form data of the end-to-end scenario of the specification.\<close>

definition alexData :: formData where
  "alexData =
     map_of [(''first-name'', ''Alex''), (''last-name'', ''Smith''),
             (''desired-email'', ''alexsmith01''), (''password'', ''Abc12345!''),
             (''birth-year'', ''1995''), (''birth-month'', ''04''), (''birth-day'', ''12''),
             (''country'', ''US'')]"

text \<open>
  The module as it is loaded: no statistics, no \<open>currentFormData\<close>, no UI manager;
  every call of \<open>Math.random()\<close> returns one half.
\<close>

definition freshWorld :: world where
  "freshWorld =
     \<lparr>randomSource = (\<lambda>n. 1 / 2), drawn = 0, clock = 0, events = [], uiManager = False,
      stats = \<lparr>attempts = 0, successes = 0, failures = 0, strategyPerformance = []\<rparr>,
      currentStrategy = ''standard'', currentFormData = None\<rparr>"

text \<open>Pipelines that do nothing, for the runs that do not reach them.\<close>

definition idlePipelines :: pipelines where
  "idlePipelines =
     \<lparr>executeSmartStrategy = (\<lambda>formData cfg w. (Inr None, w)),
      executeAggressiveStrategy = (\<lambda>formData cfg w. (Inr None, w))\<rparr>"

text \<open>The counters recorded for a profile, all zero when it has no bucket.\<close>

definition bucketOf :: "string \<Rightarrow> (string \<times> counters) list \<Rightarrow> counters" where
  "bucketOf strategy performance =
     (case map_of performance strategy of
        None \<Rightarrow> \<lparr>attempts = 0, successes = 0, failures = 0\<rparr>
      | Some c \<Rightarrow> c)"

definition registrationOf :: "(error + stepValue option) \<Rightarrow> registration option" where
  "registrationOf r = (case r of Inr (Some (Registration reg)) \<Rightarrow> Some reg | _ \<Rightarrow> None)"

text \<open>
  The statistics after one successful run under \<open>smart\<close> followed by one under
  \<open>standard\<close>, and a context in which no rule before the fallback applies.
\<close>

definition tiedWorld :: world where
  "tiedWorld =
     freshWorld\<lparr>stats := \<lparr>attempts = 2, successes = 2, failures = 0,
        strategyPerformance =
          [(''smart'', \<lparr>attempts = 1, successes = 1, failures = 0\<rparr>),
           (''standard'', \<lparr>attempts = 1, successes = 1, failures = 0\<rparr>)]\<rparr>\<rparr>"

definition quietContext :: strategyContext where
  "quietContext = \<lparr>networkSpeed = Some ''fast'', previousFailures = Some 0, timeOfDay = Some 20,
                    isVpnDetected = Some False\<rparr>"

text \<open>
  A pipeline of five steps over numbers for the abort scenario of the specification:
  every step writes its number to the console; the second throws, the others return
  their number.
\<close>

definition probeStep :: "nat \<Rightarrow> bool \<Rightarrow> nat step" where
  "probeStep k throws =
     \<lparr>name = utf16 (toDecimal k),
      action = (\<lambda>input w. (if throws then Inl (Error (utf16 ''boom'')) else Inr k,
                             emit [Console (utf16 (toDecimal k))] w))\<rparr>"

definition abortingPipeline :: "nat step list" where
  "abortingPipeline =
     [probeStep 1 False, probeStep 2 True, probeStep 3 False, probeStep 4 False, probeStep 5 False]"

section \<open>Observing the retry loop\<close>

text \<open>
  The only table of retryable messages in the sources is the one of
  \<open>OutlookRegistration.shouldRetry\<close>: an error is retryable when its message
  includes one of three texts (network connection failed, server temporarily unavailable,
  request timed out). \<open>includesText\<close> is \<open>String.prototype.includes\<close>.
\<close>

fun includesText :: "message \<Rightarrow> message \<Rightarrow> bool" where
  "includesText [] needle = (needle = [])"
| "includesText (c # cs) needle =
     (take (length needle) (c # cs) = needle \<or> includesText cs needle)"

definition retryableErrors :: "message list" where
  "retryableErrors =
     [[32593, 32476, 36830, 25509, 22833, 36133],
      [26381, 21153, 22120, 26242, 26102, 19981, 21487, 29992],
      [35831, 27714, 36229, 26102]]"

definition isRetryable :: "error \<Rightarrow> bool" where
  "isRetryable e = list_ex (\<lambda>msg. includesText (errorMessage e) msg) retryableErrors"

text \<open>
  What a list of events tells about a retried submission: the number of calls of
  \<open>submitRegistration\<close>, each of which writes one line to the console, and the
  durations of the suspensions that directly follow a warning of \<open>Utils.retry\<close>.
\<close>

definition submissionLine :: event where
  "submissionLine =
     Console ([91, 31574, 30053, 93, 32] @ [25552, 20132, 27880, 20876, 35831, 27714, 46, 46, 46])"

definition submissions :: "event list \<Rightarrow> nat" where
  "submissions es = length (filter (\<lambda>e. e = submissionLine) es)"

definition isRetryWarning :: "event \<Rightarrow> bool" where
  "isRetryWarning e = (case e of Console m \<Rightarrow> take 3 m = [37325, 35797, 32] | _ \<Rightarrow> False)"

fun backoffs :: "event list \<Rightarrow> int list" where
  "backoffs (e # Suspend ms # es) =
     (if isRetryWarning e then ms # backoffs es else backoffs es)"
| "backoffs (e # es) = backoffs es"
| "backoffs [] = []"

text \<open>
  A request, and a world in which the first submission fails with the first message of
  the table of errors (email already exists) and the second submission succeeds.
\<close>

definition alexRequest :: request where
  "alexRequest =
     \<lparr>email_req = ''alexsmith01@outlook.com'', password_req = Some ''Abc12345!'',
      firstName = Some ''Alex'', lastName = Some ''Smith'', birthDate = ''1995-04-12'',
      country = Some ''US'', phone = None, userAgent = None, timestamp_req = 0,
      clientId = None, sessionId = None\<rparr>"

definition secondTryWorld :: world where
  "secondTryWorld = freshWorld\<lparr>randomSource := (\<lambda>n. if n = 4 then 1 / 2 else 0)\<rparr>"

chapter \<open>Properties\<close>

section \<open>Password strength\<close>

lemma score_sum:
  "score (checkPasswordStrength p) =
     of_bool (hasLength8 p) + of_bool (length p \<ge> 12) + of_bool (hasLower p) + of_bool (hasUpper p)
       + of_bool (hasDigit p) + of_bool (hasSymbol p)"
  by (cases p) (simp_all add: checkPasswordStrength_def Let_def hasLength8_def hasLower_def
      hasUpper_def hasDigit_def hasSymbol_def)

lemma list_ex_mono_set: "set p \<subseteq> set q \<Longrightarrow> list_ex P p \<Longrightarrow> list_ex P q"
  by (auto simp: list_ex_iff)

lemma level_score: "level (checkPasswordStrength p) = levelOf (score (checkPasswordStrength p))"
  by (simp add: checkPasswordStrength_def Let_def levelOf_def)

text \<open>
  Claim C8. The score of \<open>Utils.checkPasswordStrength\<close> is the number of satisfied
  criteria among: length at least 8, length at least 12, a lowercase letter, an uppercase
  letter, a digit, a character that is none of these. No criterion subtracts, so the
  score does not decrease when a password is extended to one that is at least as long and
  contains all its characters (adding characters can only add criteria). The level is
  \<open>weak\<close> exactly when the score is at most 2, and a score of 3 is \<open>fair\<close>.
\<close>

theorem password_strength_monotone:
  "(length p \<le> length q \<and> set p \<subseteq> set q \<longrightarrow>
      score (checkPasswordStrength p) \<le> score (checkPasswordStrength q))
   \<and> score (checkPasswordStrength p) =
       of_bool (hasLength8 p) + of_bool (length p \<ge> 12) + of_bool (hasLower p)
         + of_bool (hasUpper p) + of_bool (hasDigit p) + of_bool (hasSymbol p)
   \<and> (level (checkPasswordStrength p) = weak \<longleftrightarrow> score (checkPasswordStrength p) \<le> 2)
   \<and> (score (checkPasswordStrength p) = 3 \<longrightarrow> level (checkPasswordStrength p) = fair)"
proof (intro conjI impI)
  assume h: "length p \<le> length q \<and> set p \<subseteq> set q"
  then have "hasLength8 p \<Longrightarrow> hasLength8 q" "12 \<le> length p \<Longrightarrow> 12 \<le> length q"
    "hasLower p \<Longrightarrow> hasLower q" "hasUpper p \<Longrightarrow> hasUpper q" "hasDigit p \<Longrightarrow> hasDigit q"
    "hasSymbol p \<Longrightarrow> hasSymbol q"
    by (auto simp: hasLength8_def hasLower_def hasUpper_def hasDigit_def hasSymbol_def
        intro: list_ex_mono_set)
  then show "score (checkPasswordStrength p) \<le> score (checkPasswordStrength q)"
    unfolding score_sum by (auto simp: of_bool_def)
next
  show "score (checkPasswordStrength p) =
       of_bool (hasLength8 p) + of_bool (length p \<ge> 12) + of_bool (hasLower p)
         + of_bool (hasUpper p) + of_bool (hasDigit p) + of_bool (hasSymbol p)"
    by (rule score_sum)
next
  show "level (checkPasswordStrength p) = weak \<longleftrightarrow> score (checkPasswordStrength p) \<le> 2"
    unfolding level_score by (simp add: levelOf_def)
next
  assume "score (checkPasswordStrength p) = 3"
  then show "level (checkPasswordStrength p) = fair"
    unfolding level_score by (simp add: levelOf_def)
qed

theorem password_strength_monotone_witness:
  "length ''abc'' \<le> length ''abcD1234'' \<and> set ''abc'' \<subseteq> set ''abcD1234''
   \<and> score (checkPasswordStrength ''abc'') \<le> score (checkPasswordStrength ''abcD1234'')
   \<and> score (checkPasswordStrength ''abcdefg1'') = 3
   \<and> level (checkPasswordStrength ''abcdefg1'') = fair"
  using password_strength_monotone [of "''abc''" "''abcD1234''"]
    password_strength_monotone [of "''abcdefg1''" "''abcdefg1''"]
  by (simp add: hasLength8_def hasLower_def hasUpper_def hasDigit_def hasSymbol_def
      isLower_def isUpper_def isDigit_def)

section \<open>FormProtector: restoring the snapshot\<close>






section \<open>FormProtector: the degraded check\<close>

lemma trim_Nil [simp]: "trim [] = []"
  by (simp add: trim_def)

lemma foldl_countFields:
  "foldl (\<lambda>acc fieldId.
              case document st fieldId of
                None \<Rightarrow> acc
              | Some v \<Rightarrow> (if v = [] \<or> trim v = [] then fst acc + 1 else fst acc, snd acc + 1))
       (e, t) fs
   = (e + length (filter (\<lambda>fieldId. case document st fieldId of None \<Rightarrow> False | Some v \<Rightarrow> trim v = []) fs),
      t + length (filter (\<lambda>fieldId. document st fieldId \<noteq> None) fs))"
  by (induction fs arbitrary: e t) (auto split: option.splits)

lemma countFields_eq:
  "countFields st =
     (length (emptyFields st), length (filter (\<lambda>fieldId. document st fieldId \<noteq> None) protectedFields))"
  unfolding countFields_def emptyFields_def foldl_countFields by simp

lemma hasValidSavedData_iff:
  "hasValidSavedData st \<longleftrightarrow> (\<exists>kv \<in> set (savedFormState st). trim (snd kv) \<noteq> [])"
proof -
  have ne: "s \<noteq> []" if "trim s \<noteq> []" for s
    using that by (cases s) auto
  show ?thesis
    unfolding hasValidSavedData_def list_ex_iff nonBlank_def
    using ne by fastforce
qed

text \<open>
  Claim C2. When the eight tracked fields all exist, \<open>checkFormCleared\<close> answers true
  if the snapshot is valid and five or more live fields are blank after trimming, and
  false if exactly four are blank; without a valid snapshot it answers false whatever
  the fields hold. A snapshot is valid when one of its values is not blank after
  trimming.
\<close>

theorem degraded_threshold:
  assumes "\<forall>f \<in> set protectedFields. document st f \<noteq> None"
  shows "(hasValidSavedData st \<and> 5 \<le> length (emptyFields st) \<longrightarrow> checkFormCleared st)
       \<and> (length (emptyFields st) = 4 \<longrightarrow> \<not> checkFormCleared st)
       \<and> (\<not> hasValidSavedData st \<longrightarrow> \<not> checkFormCleared st)
       \<and> (hasValidSavedData st \<longleftrightarrow> (\<exists>kv \<in> set (savedFormState st). trim (snd kv) \<noteq> []))"
proof -
  from assms have "filter (\<lambda>fieldId. document st fieldId \<noteq> None) protectedFields = protectedFields"
    by (simp add: filter_id_conv)
  then have total: "countFields st = (length (emptyFields st), 8)"
    by (simp add: countFields_eq) (simp add: protectedFields_def)
  have rate: "(of_nat n / of_nat 8 :: real) > 1 / 2 \<longleftrightarrow> 5 \<le> n" for n :: nat
  proof -
    have "(of_nat n / of_nat 8 :: real) > 1 / 2 \<longleftrightarrow> (of_nat 4 :: real) < of_nat n"
      by (simp add: field_simps)
    also have "\<dots> \<longleftrightarrow> 4 < n" by (simp only: of_nat_less_iff)
    finally show ?thesis by auto
  qed
  show ?thesis
    unfolding checkFormCleared_def total using rate [of "length (emptyFields st)"]
    by (auto simp: hasValidSavedData_iff)
qed

theorem degraded_threshold_witness:
  "checkFormCleared (clearedForm 5) \<and> \<not> checkFormCleared (clearedForm 4)
   \<and> \<not> checkFormCleared (clearSavedData (clearedForm 8))"
proof -
  have p5: "\<forall>f \<in> set protectedFields. document (clearedForm 5) f \<noteq> None"
    and p4: "\<forall>f \<in> set protectedFields. document (clearedForm 4) f \<noteq> None"
    and p8: "\<forall>f \<in> set protectedFields. document (clearSavedData (clearedForm 8)) f \<noteq> None"
    by (simp_all add: clearedForm_def protectedFields_def clearSavedData_def)
  have e5: "length (emptyFields (clearedForm 5)) = 5"
    and e4: "length (emptyFields (clearedForm 4)) = 4"
    by (simp_all add: clearedForm_def protectedFields_def emptyFields_def trim_def isWhiteSpace_def)
  have v5: "hasValidSavedData (clearedForm 5)"
    and v8: "\<not> hasValidSavedData (clearSavedData (clearedForm 8))"
    by (simp_all add: clearedForm_def hasValidSavedData_def clearSavedData_def nonBlank_def
        trim_def isWhiteSpace_def)
  show ?thesis
    using degraded_threshold [OF p5] degraded_threshold [OF p4] degraded_threshold [OF p8]
      e5 e4 v5 v8
    by simp
qed

section \<open>FormProtector: the day of the month\<close>





section \<open>The world: what each operation leaves unchanged\<close>

lemma frames [simp]:
  "randomSource (emit es w) = randomSource w" "drawn (emit es w) = drawn w" "clock (emit es w) = clock w"
  "uiManager (emit es w) = uiManager w" "stats (emit es w) = stats w"
  "currentStrategy (emit es w) = currentStrategy w" "currentFormData (emit es w) = currentFormData w"
  "events (emit es w) = events w @ es"
  by (simp_all add: emit_def)

lemma frames_whenUI [simp]:
  "randomSource (whenUI u es w) = randomSource w" "drawn (whenUI u es w) = drawn w" "clock (whenUI u es w) = clock w"
  "uiManager (whenUI u es w) = uiManager w" "stats (whenUI u es w) = stats w"
  "currentStrategy (whenUI u es w) = currentStrategy w" "currentFormData (whenUI u es w) = currentFormData w"
  by (simp_all add: whenUI_def)

lemma frames_logStrategy [simp]:
  "randomSource (logStrategy m w) = randomSource w" "drawn (logStrategy m w) = drawn w" "clock (logStrategy m w) = clock w"
  "uiManager (logStrategy m w) = uiManager w" "stats (logStrategy m w) = stats w"
  "currentStrategy (logStrategy m w) = currentStrategy w" "currentFormData (logStrategy m w) = currentFormData w"
  by (simp_all add: logStrategy_def)

lemma frames_delay [simp]:
  "randomSource (delay ms w) = randomSource w" "drawn (delay ms w) = drawn w" "clock (delay ms w) = clock w + ms"
  "uiManager (delay ms w) = uiManager w" "stats (delay ms w) = stats w"
  "currentStrategy (delay ms w) = currentStrategy w" "currentFormData (delay ms w) = currentFormData w"
  "events (delay ms w) = events w @ [Suspend ms]"
  by (simp_all add: delay_def)

lemma frames_mathRandom [simp]:
  "fst (mathRandom w) = frac (randomSource w (drawn w))"
  "randomSource (snd (mathRandom w)) = randomSource w" "drawn (snd (mathRandom w)) = drawn w + 1"
  "clock (snd (mathRandom w)) = clock w" "events (snd (mathRandom w)) = events w"
  "uiManager (snd (mathRandom w)) = uiManager w" "stats (snd (mathRandom w)) = stats w"
  "currentStrategy (snd (mathRandom w)) = currentStrategy w"
  "currentFormData (snd (mathRandom w)) = currentFormData w"
  by (simp_all add: mathRandom_def)

lemma frames_randomDelay [simp]:
  "randomSource (randomDelay lo hi w) = randomSource w" "drawn (randomDelay lo hi w) = drawn w + 1"
  "uiManager (randomDelay lo hi w) = uiManager w" "stats (randomDelay lo hi w) = stats w"
  "currentStrategy (randomDelay lo hi w) = currentStrategy w"
  "currentFormData (randomDelay lo hi w) = currentFormData w"
  "events (randomDelay lo hi w) = events w @ [Suspend (randomDelayMs lo hi (frac (randomSource w (drawn w))))]"
  "clock (randomDelay lo hi w) = clock w + randomDelayMs lo hi (frac (randomSource w (drawn w)))"
  by (simp_all add: randomDelay_def split_def)

lemma frames_beforeStep [simp]:
  "randomSource (beforeStep s i cfg u w) = randomSource w"
  "drawn (beforeStep s i cfg u w) = (if humanLikeDelay cfg \<and> i > 0 then drawn w + 1 else drawn w)"
  "uiManager (beforeStep s i cfg u w) = uiManager w" "stats (beforeStep s i cfg u w) = stats w"
  "currentStrategy (beforeStep s i cfg u w) = currentStrategy w"
  "currentFormData (beforeStep s i cfg u w) = currentFormData w"
  by (simp_all add: beforeStep_def Let_def)

lemma frames_afterStep [simp]:
  "randomSource (afterStep s u w) = randomSource w" "drawn (afterStep s u w) = drawn w"
  "clock (afterStep s u w) = clock w"
  "uiManager (afterStep s u w) = uiManager w" "stats (afterStep s u w) = stats w"
  "currentStrategy (afterStep s u w) = currentStrategy w"
  "currentFormData (afterStep s u w) = currentFormData w"
  by (simp_all add: afterStep_def)


lemma map_of_insertKey:
  "map_of al k = None \<Longrightarrow> map_of (insertKey k v al) k' = (if k' = k then Some v else map_of al k')"
  by (induction k v al rule: insertKey.induct) (auto split: option.splits)

lemma map_of_bump:
  "map_of (map (\<lambda>kv. if fst kv = s then (fst kv, f (snd kv)) else kv) al) k =
     (if k = s then map_option f (map_of al k) else map_of al k)"
  by (induction al) auto

lemma frames_initialize [simp]:
  "randomSource (initializeStrategyStats s w) = randomSource w" "drawn (initializeStrategyStats s w) = drawn w"
  "clock (initializeStrategyStats s w) = clock w" "events (initializeStrategyStats s w) = events w"
  "uiManager (initializeStrategyStats s w) = uiManager w"
  "currentStrategy (initializeStrategyStats s w) = currentStrategy w"
  "currentFormData (initializeStrategyStats s w) = currentFormData w"
  "attempts (stats (initializeStrategyStats s w)) = attempts (stats w)"
  "successes (stats (initializeStrategyStats s w)) = successes (stats w)"
  "failures (stats (initializeStrategyStats s w)) = failures (stats w)"
  by (simp_all add: initializeStrategyStats_def)

lemma frames_bumpBucket [simp]:
  "randomSource (bumpBucket f s w) = randomSource w" "drawn (bumpBucket f s w) = drawn w"
  "clock (bumpBucket f s w) = clock w" "events (bumpBucket f s w) = events w"
  "uiManager (bumpBucket f s w) = uiManager w"
  "currentStrategy (bumpBucket f s w) = currentStrategy w"
  "currentFormData (bumpBucket f s w) = currentFormData w"
  "attempts (stats (bumpBucket f s w)) = attempts (stats w)"
  "successes (stats (bumpBucket f s w)) = successes (stats w)"
  "failures (stats (bumpBucket f s w)) = failures (stats w)"
  by (simp_all add: bumpBucket_def)

lemma bucketOf_initialize:
  "s \<notin> set objectPrototype \<Longrightarrow>
     bucketOf k (strategyPerformance (stats (initializeStrategyStats s w)))
       = bucketOf k (strategyPerformance (stats w))"
  by (auto simp: bucketOf_def initializeStrategyStats_def map_of_insertKey split: option.splits)

lemma bucket_exists_initialize:
  "s \<notin> set objectPrototype \<Longrightarrow>
     map_of (strategyPerformance (stats (initializeStrategyStats s w))) s \<noteq> None"
  by (auto simp: initializeStrategyStats_def map_of_insertKey)

lemma bucket_other_initialize:
  "k \<noteq> s \<Longrightarrow>
     map_of (strategyPerformance (stats (initializeStrategyStats s w))) k
       = map_of (strategyPerformance (stats w)) k"
  by (auto simp: initializeStrategyStats_def map_of_insertKey)

lemma perf_bump [simp]:
  "map_of (strategyPerformance (stats (bumpBucket f s w))) k =
     (if k = s then map_option f (map_of (strategyPerformance (stats w)) k)
      else map_of (strategyPerformance (stats w)) k)"
  by (simp add: bumpBucket_def map_of_bump)

lemma bucketOf_bump:
  "map_of (strategyPerformance (stats w)) s \<noteq> None \<Longrightarrow>
     bucketOf s (strategyPerformance (stats (bumpBucket f s w))) = f (bucketOf s (strategyPerformance (stats w)))"
  by (auto simp: bucketOf_def)

text \<open>
  What \<open>executeStrategy\<close> does to the statistics before and after the pipeline.
\<close>

lemma executeStrategy_unknown:
  assumes "strategy \<notin> {''standard'', ''smart'', ''aggressive''}" "strategy \<notin> set objectPrototype"
  shows "fst (executeStrategy ps formData strategy w)
           = Inl (Error ([26410, 30693, 31574, 30053, 58, 32] @ utf16 strategy))"
    and "attempts (stats (snd (executeStrategy ps formData strategy w))) = attempts (stats w) + 1"
    and "failures (stats (snd (executeStrategy ps formData strategy w))) = failures (stats w) + 1"
    and "successes (stats (snd (executeStrategy ps formData strategy w))) = successes (stats w)"
    and "bucketOf strategy (strategyPerformance (stats (snd (executeStrategy ps formData strategy w))))
           = (bucketOf strategy (strategyPerformance (stats w)))
               \<lparr>attempts := attempts (bucketOf strategy (strategyPerformance (stats w))) + 1,
                failures := failures (bucketOf strategy (strategyPerformance (stats w))) + 1\<rparr>"
    and "map_of (strategyPerformance (stats (snd (executeStrategy ps formData strategy w)))) strategy \<noteq> None"
    and "k \<noteq> strategy \<Longrightarrow> map_of (strategyPerformance (stats (snd (executeStrategy ps formData strategy w)))) k
            = map_of (strategyPerformance (stats w)) k"
    and "drawn (snd (executeStrategy ps formData strategy w)) = drawn w"
    and "clock (snd (executeStrategy ps formData strategy w)) = clock w"
proof -
  define w1 where "w1 = w\<lparr>stats := (stats w)\<lparr>attempts := attempts (stats w) + 1\<rparr>\<rparr>"
  define w2 where "w2 = initializeStrategyStats strategy w1"
  define w3 where "w3 = bumpBucket (\<lambda>c. c\<lparr>attempts := attempts c + 1\<rparr>) strategy w2"
  define w4 where "w4 = logStrategy ([24320, 22987, 25191, 34892] @ profileName (getStrategy strategy)) w3"
  define e where "e = Error ([26410, 30693, 31574, 30053, 58, 32] @ utf16 strategy)"
  define w5 where "w5 = w4\<lparr>stats := (stats w4)\<lparr>failures := failures (stats w4) + 1\<rparr>\<rparr>"
  define w6 where "w6 = bumpBucket (\<lambda>c. c\<lparr>failures := failures c + 1\<rparr>) strategy w5"
  define w7 where "w7 = logStrategy
      (profileName (getStrategy strategy) @ [25191, 34892, 22833, 36133, 58, 32] @ errorMessage e) w6"
  have run: "executeStrategy ps formData strategy w = (Inl e, w7)"
    using assms(1)
    by (simp add: executeStrategy_def Let_def w1_def w2_def w3_def w4_def w5_def w6_def w7_def e_def)
  have p1: "strategyPerformance (stats w1) = strategyPerformance (stats w)"
    by (simp add: w1_def)
  have ex2: "map_of (strategyPerformance (stats w2)) strategy \<noteq> None"
    using assms(2) by (simp add: w2_def bucket_exists_initialize)
  have b2: "bucketOf strategy (strategyPerformance (stats w2)) = bucketOf strategy (strategyPerformance (stats w))"
    using assms(2) by (simp add: w2_def bucketOf_initialize p1)
  have b3: "bucketOf strategy (strategyPerformance (stats w3))
      = (bucketOf strategy (strategyPerformance (stats w)))
          \<lparr>attempts := attempts (bucketOf strategy (strategyPerformance (stats w))) + 1\<rparr>"
    using ex2 by (simp add: w3_def bucketOf_bump b2)
  have ex3: "map_of (strategyPerformance (stats w3)) strategy \<noteq> None"
    using ex2 by (simp add: w3_def)
  have p5: "strategyPerformance (stats w5) = strategyPerformance (stats w3)"
    by (simp add: w5_def w4_def)
  have b6: "bucketOf strategy (strategyPerformance (stats w6))
      = (bucketOf strategy (strategyPerformance (stats w)))
          \<lparr>attempts := attempts (bucketOf strategy (strategyPerformance (stats w))) + 1,
           failures := failures (bucketOf strategy (strategyPerformance (stats w))) + 1\<rparr>"
    using ex3 by (simp add: w6_def bucketOf_bump p5 b3)
  have s7: "stats w7 = stats w6"
    by (simp add: w7_def)
  show "fst (executeStrategy ps formData strategy w)
           = Inl (Error ([26410, 30693, 31574, 30053, 58, 32] @ utf16 strategy))"
    by (simp add: run e_def)
  show "attempts (stats (snd (executeStrategy ps formData strategy w))) = attempts (stats w) + 1"
    by (simp add: run s7 w6_def w5_def w4_def w3_def w2_def w1_def)
  show "failures (stats (snd (executeStrategy ps formData strategy w))) = failures (stats w) + 1"
    by (simp add: run s7 w6_def w5_def w4_def w3_def w2_def w1_def)
  show "successes (stats (snd (executeStrategy ps formData strategy w))) = successes (stats w)"
    by (simp add: run s7 w6_def w5_def w4_def w3_def w2_def w1_def)
  show "bucketOf strategy (strategyPerformance (stats (snd (executeStrategy ps formData strategy w))))
           = (bucketOf strategy (strategyPerformance (stats w)))
               \<lparr>attempts := attempts (bucketOf strategy (strategyPerformance (stats w))) + 1,
                failures := failures (bucketOf strategy (strategyPerformance (stats w))) + 1\<rparr>"
    by (simp add: run s7 b6)
  show "map_of (strategyPerformance (stats (snd (executeStrategy ps formData strategy w)))) strategy \<noteq> None"
    using ex3 by (simp add: run s7 w6_def p5)
  show "map_of (strategyPerformance (stats (snd (executeStrategy ps formData strategy w)))) k
            = map_of (strategyPerformance (stats w)) k" if "k \<noteq> strategy"
    using that by (simp add: run s7 w6_def p5 w3_def w2_def bucket_other_initialize p1)
  show "drawn (snd (executeStrategy ps formData strategy w)) = drawn w"
    by (simp add: run w7_def w6_def w5_def w4_def w3_def w2_def w1_def)
  show "clock (snd (executeStrategy ps formData strategy w)) = clock w"
    by (simp add: run w7_def w6_def w5_def w4_def w3_def w2_def w1_def)
qed


lemma snd_mathRandom: "snd (mathRandom w) = w\<lparr>drawn := drawn w + 1\<rparr>"
  by (simp add: mathRandom_def)

lemma snd_generateRandomString [simp]:
  "snd (generateRandomString n cs w) = w\<lparr>drawn := drawn w + n\<rparr>"
proof (induction n arbitrary: w)
  case 0
  show ?case by simp
next
  case (Suc n)
  show ?case
    by (simp add: split_def Let_def Suc.IH snd_mathRandom)
qed

lemma snd_replaceXY [simp]:
  "snd (replaceXY t w) = w\<lparr>drawn := drawn w + length (filter (\<lambda>c. c = CHR ''x'' \<or> c = CHR ''y'') t)\<rparr>"
proof (induction t arbitrary: w)
  case Nil
  show ?case by simp
next
  case (Cons c t)
  show ?case
    by (simp add: split_def Let_def Cons.IH snd_mathRandom)
qed

lemma frames_prepareRequest [simp]:
  "email_req (fst (prepareRequest fd cfg w)) = interpolate (fd ''desired-email'') @ ''@outlook.com''"
  "randomSource (snd (prepareRequest fd cfg w)) = randomSource w"
  "uiManager (snd (prepareRequest fd cfg w)) = uiManager w"
  "stats (snd (prepareRequest fd cfg w)) = stats w"
  "currentStrategy (snd (prepareRequest fd cfg w)) = currentStrategy w"
  "currentFormData (snd (prepareRequest fd cfg w)) = currentFormData w"
  "\<not> randomizeData cfg \<Longrightarrow> drawn (snd (prepareRequest fd cfg w)) = drawn w + 1"
  by (simp_all add: prepareRequest_def getRandomUserAgent_def generateUUID_def split_def Let_def)

lemma submitRegistration_success:
  assumes "2 / 10 < frac (randomSource w (drawn w + 1))"
  shows "fst (submitRegistration req cfg w) =
           Inr \<lparr>success = True, email = email_req req, message = [27880, 20876, 25104, 21151],
                verificationRequired = (7 / 10 < frac (randomSource w (drawn w + 2)))\<rparr>"
    and "randomSource (snd (submitRegistration req cfg w)) = randomSource w"
    and "uiManager (snd (submitRegistration req cfg w)) = uiManager w"
    and "stats (snd (submitRegistration req cfg w)) = stats w"
    and "currentFormData (snd (submitRegistration req cfg w)) = currentFormData w"
    and "drawn (snd (submitRegistration req cfg w)) = drawn w + 3"
  using assms by (simp_all add: submitRegistration_def split_def Let_def)

lemma frames_validateResponse [simp]:
  "success resp \<Longrightarrow> fst (validateResponse resp w) = Inr resp"
  "randomSource (snd (validateResponse resp w)) = randomSource w"
  "uiManager (snd (validateResponse resp w)) = uiManager w"
  "stats (snd (validateResponse resp w)) = stats w"
  "currentFormData (snd (validateResponse resp w)) = currentFormData w"
  "drawn (snd (validateResponse resp w)) = drawn w"
  by (simp_all add: validateResponse_def)

lemma frames_finalizeRegistration [simp]:
  "success (fst (finalizeRegistration resp w)) = True"
  "email (fst (finalizeRegistration resp w)) = email resp"
  "password (fst (finalizeRegistration resp w)) =
     (case currentFormData w of
        None \<Rightarrow> ''****''
      | Some fd \<Rightarrow> if truthy (fd ''password'') then stringOf (fd ''password'') else ''****'')"
  "randomSource (snd (finalizeRegistration resp w)) = randomSource w"
  "uiManager (snd (finalizeRegistration resp w)) = uiManager w"
  "stats (snd (finalizeRegistration resp w)) = stats w"
  "currentFormData (snd (finalizeRegistration resp w)) = currentFormData w"
  "drawn (snd (finalizeRegistration resp w)) = drawn w"
  by (simp_all add: finalizeRegistration_def Let_def)

lemma validateFormData_alexData: "validateFormData alexData = Inr (Validation alexData)"
  by (simp add: validateFormData_def alexData_def truthy_def stringOf_def checkPasswordStrength_def
      levelOf_def isLower_def isUpper_def isDigit_def Let_def)

lemma executeStepsFrom_ok:
  "action s r (beforeStep s i cfg u w) = (Inr v, w1) \<Longrightarrow>
     executeStepsFrom (s # ss) i cfg u r w = executeStepsFrom ss (Suc i) cfg u (Some v) (afterStep s u w1)"
  by simp

lemma executeStepsFrom_fail:
  "action s r (beforeStep s i cfg u w) = (Inl e, w1) \<Longrightarrow>
     executeStepsFrom (s # ss) i cfg u r w = (Inl e, afterFailure s u e w1)"
  by simp

lemma executeStandardStrategy_success:
  assumes valid: "validateFormData fd = Inr (Validation fd)"
    and draw: "2 / 10 < frac (randomSource w (drawn w + 4))"
  shows "\<exists>reg w'. executeStandardStrategy fd standard w = (Inr (Some (Registration reg)), w')
           \<and> success reg
           \<and> email reg = interpolate (fd ''desired-email'') @ ''@outlook.com''
           \<and> password reg = (case currentFormData w of
                                 None \<Rightarrow> ''****''
                               | Some cur \<Rightarrow> if truthy (cur ''password'') then stringOf (cur ''password'') else ''****'')
           \<and> stats w' = stats w"
proof -
  define s1 where "s1 = standardSteps fd standard ! 0"
  define s2 where "s2 = standardSteps fd standard ! 1"
  define s3 where "s3 = standardSteps fd standard ! 2"
  define s4 where "s4 = standardSteps fd standard ! 3"
  define s5 where "s5 = standardSteps fd standard ! 4"
  have steps: "standardSteps fd standard = [s1, s2, s3, s4, s5]"
    unfolding s1_def s2_def s3_def s4_def s5_def standardSteps_def by simp
  have s1: "action s1 = (\<lambda>_ w. (validateFormData fd, w))"
    unfolding s1_def standardSteps_def by simp
  have s2: "action s2 = (\<lambda>_ w. let (r, w1) = prepareRequest fd standard w in (Inr (Request r), w1))"
    unfolding s2_def standardSteps_def by simp
  have s3: "action s3 = (\<lambda>v w. case v of
                         Some (Request r) \<Rightarrow>
                           (case submitRegistration r standard w of
                              (Inl e, w1) \<Rightarrow> (Inl e, w1)
                            | (Inr resp, w1) \<Rightarrow> (Inr (Response resp), w1))
                       | _ \<Rightarrow> (Inl typeError, w))"
    unfolding s3_def standardSteps_def by simp
  have s4: "action s4 = (\<lambda>v w. case v of
                         Some (Response resp) \<Rightarrow>
                           (case validateResponse resp w of
                              (Inl e, w1) \<Rightarrow> (Inl e, w1)
                            | (Inr resp1, w1) \<Rightarrow> (Inr (Response resp1), w1))
                       | _ \<Rightarrow> (Inl typeError, w))"
    unfolding s4_def standardSteps_def by simp
  have s5: "action s5 = (\<lambda>v w. case v of
                         Some (Response resp) \<Rightarrow>
                           (let (r, w1) = finalizeRegistration resp w in (Inr (Registration r), w1))
                       | _ \<Rightarrow> (Inl typeError, w))"
    unfolding s5_def standardSteps_def by simp
  have hd: "humanLikeDelay standard" "\<not> randomizeData standard"
    by (simp_all add: standard_def)
  define b1 where "b1 = beforeStep s1 0 standard True w"
  define a1 where "a1 = afterStep s1 True b1"
  define b2 where "b2 = beforeStep s2 (Suc 0) standard True a1"
  define req where "req = fst (prepareRequest fd standard b2)"
  define p2 where "p2 = snd (prepareRequest fd standard b2)"
  define a2 where "a2 = afterStep s2 True p2"
  define b3 where "b3 = beforeStep s3 (Suc (Suc 0)) standard True a2"
  have d3: "drawn b3 = drawn w + 3" "randomSource b3 = randomSource w"
    using hd by (simp_all add: b3_def a2_def p2_def b2_def a1_def b1_def)
  have "drawn b3 + 1 = drawn w + 4"
    by (simp add: d3)
  with draw have dr: "2 / 10 < frac (randomSource b3 (drawn b3 + 1))"
    by (simp only: d3(2))
  define resp where "resp = \<lparr>success = True, email = email_req req, message = [27880, 20876, 25104, 21151],
                verificationRequired = (7 / 10 < frac (randomSource b3 (drawn b3 + 2)))\<rparr>"
  define p3 where "p3 = snd (submitRegistration req standard b3)"
  have sub: "submitRegistration req standard b3 = (Inr resp, p3)"
    using submitRegistration_success(1) [OF dr, of req standard]
    by (simp add: resp_def p3_def prod_eq_iff)
  define a3 where "a3 = afterStep s3 True p3"
  define b4 where "b4 = beforeStep s4 (Suc (Suc (Suc 0))) standard True a3"
  define p4 where "p4 = snd (validateResponse resp b4)"
  have val: "validateResponse resp b4 = (Inr resp, p4)"
    by (simp add: p4_def prod_eq_iff resp_def)
  define a4 where "a4 = afterStep s4 True p4"
  define b5 where "b5 = beforeStep s5 (Suc (Suc (Suc (Suc 0)))) standard True a4"
  define reg where "reg = fst (finalizeRegistration resp b5)"
  define p5 where "p5 = snd (finalizeRegistration resp b5)"
  define a5 where "a5 = afterStep s5 True p5"
  have fr3: "stats p3 = stats b3" "currentFormData p3 = currentFormData b3"
    using submitRegistration_success(4,5) [OF dr, of req standard] by (simp_all add: p3_def)
  have cur: "currentFormData b5 = currentFormData w"
    by (simp add: b5_def a4_def p4_def b4_def a3_def fr3 b3_def a2_def p2_def b2_def a1_def b1_def)
  have st: "stats a5 = stats w"
    by (simp add: a5_def p5_def b5_def a4_def p4_def b4_def a3_def fr3 b3_def a2_def p2_def b2_def a1_def b1_def)
  have r1: "action s1 None (beforeStep s1 0 standard True w) = (Inr (Validation fd), b1)"
    by (simp add: s1 valid b1_def)
  have r2: "action s2 (Some (Validation fd)) (beforeStep s2 (Suc 0) standard True a1) = (Inr (Request req), p2)"
    by (simp add: s2 b2_def req_def p2_def split_def Let_def)
  have r3: "action s3 (Some (Request req)) (beforeStep s3 (Suc (Suc 0)) standard True a2) = (Inr (Response resp), p3)"
    using sub by (simp add: s3 b3_def)
  have r4: "action s4 (Some (Response resp)) (beforeStep s4 (Suc (Suc (Suc 0))) standard True a3) = (Inr (Response resp), p4)"
    using val by (simp add: s4 b4_def)
  have r5: "action s5 (Some (Response resp)) (beforeStep s5 (Suc (Suc (Suc (Suc 0)))) standard True a4) = (Inr (Registration reg), p5)"
    by (simp add: s5 b5_def reg_def p5_def split_def Let_def)
  have "executeStandardStrategy fd standard w = executeStepsFrom [s1, s2, s3, s4, s5] 0 standard True None w"
    by (simp only: executeStandardStrategy_def executeSteps_def steps)
  also have "\<dots> = executeStepsFrom [s2, s3, s4, s5] (Suc 0) standard True (Some (Validation fd)) a1"
    by (simp only: executeStepsFrom_ok [OF r1] a1_def)
  also have "\<dots> = executeStepsFrom [s3, s4, s5] (Suc (Suc 0)) standard True (Some (Request req)) a2"
    by (simp only: executeStepsFrom_ok [OF r2] a2_def)
  also have "\<dots> = executeStepsFrom [s4, s5] (Suc (Suc (Suc 0))) standard True (Some (Response resp)) a3"
    by (simp only: executeStepsFrom_ok [OF r3] a3_def)
  also have "\<dots> = executeStepsFrom [s5] (Suc (Suc (Suc (Suc 0)))) standard True (Some (Response resp)) a4"
    by (simp only: executeStepsFrom_ok [OF r4] a4_def)
  also have "\<dots> = executeStepsFrom [] (Suc (Suc (Suc (Suc (Suc 0))))) standard True (Some (Registration reg)) a5"
    by (simp only: executeStepsFrom_ok [OF r5] a5_def)
  finally have run: "executeStandardStrategy fd standard w = (Inr (Some (Registration reg)), a5)"
    by (simp only: executeStepsFrom.simps)
  have "success reg" "email reg = interpolate (fd ''desired-email'') @ ''@outlook.com''"
    "password reg = (case currentFormData w of
                                 None \<Rightarrow> ''****''
                               | Some cur \<Rightarrow> if truthy (cur ''password'') then stringOf (cur ''password'') else ''****'')"
    by (simp_all add: reg_def resp_def req_def cur)
  with run st show ?thesis by blast
qed


lemma standard_not_inherited: "''standard'' \<notin> set objectPrototype"
  by (simp add: objectPrototype_def)

lemma executeStrategy_standard:
  assumes valid: "validateFormData fd = Inr (Validation fd)"
    and draw: "2 / 10 < frac (randomSource w (drawn w + 4))"
  shows "\<exists>reg w'. executeStrategy ps fd ''standard'' w = (Inr (Some (Registration reg)), w')
           \<and> success reg
           \<and> email reg = interpolate (fd ''desired-email'') @ ''@outlook.com''
           \<and> password reg = (case currentFormData w of
                                 None \<Rightarrow> ''****''
                               | Some cur \<Rightarrow> if truthy (cur ''password'') then stringOf (cur ''password'') else ''****'')
           \<and> attempts (stats w') = attempts (stats w) + 1
           \<and> successes (stats w') = successes (stats w) + 1
           \<and> failures (stats w') = failures (stats w)
           \<and> bucketOf ''standard'' (strategyPerformance (stats w'))
               = (bucketOf ''standard'' (strategyPerformance (stats w)))
                   \<lparr>attempts := attempts (bucketOf ''standard'' (strategyPerformance (stats w))) + 1,
                    successes := successes (bucketOf ''standard'' (strategyPerformance (stats w))) + 1\<rparr>"
proof -
  define w1 where "w1 = w\<lparr>stats := (stats w)\<lparr>attempts := attempts (stats w) + 1\<rparr>\<rparr>"
  define w2 where "w2 = initializeStrategyStats ''standard'' w1"
  define w3 where "w3 = bumpBucket (\<lambda>c. c\<lparr>attempts := attempts c + 1\<rparr>) ''standard'' w2"
  define w4 where "w4 = logStrategy ([24320, 22987, 25191, 34892] @ profileName standard) w3"
  have fr: "randomSource w4 = randomSource w" "drawn w4 = drawn w" "currentFormData w4 = currentFormData w"
    by (simp_all add: w4_def w3_def w2_def w1_def)
  from draw have draw4: "2 / 10 < frac (randomSource w4 (drawn w4 + 4))"
    by (simp only: fr)
  from executeStandardStrategy_success [OF valid draw4]
  obtain reg w5 where run: "executeStandardStrategy fd standard w4 = (Inr (Some (Registration reg)), w5)"
    and reg: "success reg" "email reg = interpolate (fd ''desired-email'') @ ''@outlook.com''"
      "password reg = (case currentFormData w4 of
                                 None \<Rightarrow> ''****''
                               | Some cur \<Rightarrow> if truthy (cur ''password'') then stringOf (cur ''password'') else ''****'')"
    and st5: "stats w5 = stats w4"
    by blast
  define w6 where "w6 = w5\<lparr>stats := (stats w5)\<lparr>successes := successes (stats w5) + 1\<rparr>\<rparr>"
  define w7 where "w7 = bumpBucket (\<lambda>c. c\<lparr>successes := successes c + 1\<rparr>) ''standard'' w6"
  define w8 where "w8 = logStrategy (profileName standard @ [25191, 34892, 25104, 21151]) w7"
  have all: "executeStrategy ps fd ''standard'' w = (Inr (Some (Registration reg)), w8)"
    using run
    by (simp add: executeStrategy_def Let_def getStrategy_def w1_def w2_def w3_def w4_def w6_def w7_def w8_def)
  have p1: "strategyPerformance (stats w1) = strategyPerformance (stats w)"
    by (simp add: w1_def)
  have ex2: "map_of (strategyPerformance (stats w2)) ''standard'' \<noteq> None"
    by (simp add: w2_def bucket_exists_initialize standard_not_inherited)
  have b2: "bucketOf ''standard'' (strategyPerformance (stats w2)) = bucketOf ''standard'' (strategyPerformance (stats w))"
    by (simp add: w2_def bucketOf_initialize standard_not_inherited p1)
  have b3: "bucketOf ''standard'' (strategyPerformance (stats w3))
      = (bucketOf ''standard'' (strategyPerformance (stats w)))
          \<lparr>attempts := attempts (bucketOf ''standard'' (strategyPerformance (stats w))) + 1\<rparr>"
    using ex2 by (simp add: w3_def bucketOf_bump b2)
  have ex3: "map_of (strategyPerformance (stats w3)) ''standard'' \<noteq> None"
    using ex2 by (simp add: w3_def)
  have p6: "strategyPerformance (stats w6) = strategyPerformance (stats w3)"
    by (simp add: w6_def st5 w4_def)
  have b7: "bucketOf ''standard'' (strategyPerformance (stats w7))
      = (bucketOf ''standard'' (strategyPerformance (stats w)))
          \<lparr>attempts := attempts (bucketOf ''standard'' (strategyPerformance (stats w))) + 1,
           successes := successes (bucketOf ''standard'' (strategyPerformance (stats w))) + 1\<rparr>"
    using ex3 by (simp add: w7_def bucketOf_bump p6 b3)
  have s8: "stats w8 = stats w7"
    by (simp add: w8_def)
  have g: "attempts (stats w8) = attempts (stats w) + 1" "successes (stats w8) = successes (stats w) + 1"
    "failures (stats w8) = failures (stats w)"
    by (simp_all add: s8 w7_def w6_def st5 w4_def w3_def w2_def w1_def)
  show ?thesis
    using all reg g b7 by (simp add: s8 fr)
qed



section \<open>executeStrategy with a name that is no profile\<close>

lemma executeStrategy_unknown_events:
  assumes "strategy \<notin> {''standard'', ''smart'', ''aggressive''}" "strategy \<notin> set objectPrototype"
  shows "events (snd (executeStrategy ps formData strategy w)) =
      events (logStrategy (profileName standard @ [25191, 34892, 22833, 36133, 58, 32]
                             @ [26410, 30693, 31574, 30053, 58, 32] @ utf16 strategy)
               (logStrategy ([24320, 22987, 25191, 34892] @ profileName standard) w))"
  using assms
  by (simp add: executeStrategy_def Let_def getStrategy_def errorMessage_def logStrategy_def emit_def)

text \<open>
  Claim C10. For a name outside \<open>standard\<close>, \<open>smart\<close>, \<open>aggressive\<close> the call is
  rejected with the unknown-strategy error after the global and the per-name attempts
  counters were incremented, and the global and per-name failures counters are incremented
  afterwards; no step runs, so no random number is drawn, no time passes and only the two
  log lines of \<open>executeStrategy\<close> are written. The lemmas \<open>executeStrategy_unknown\<close>
  and \<open>executeStrategy_unknown_events\<close> prove this for every name that is not a
  property of \<open>Object.prototype\<close>. For the other names the claim fails:
  \<open>initializeStrategyStats\<close> tests \<open>strategyPerformance[strategy]\<close> for truthiness,
  the inherited built-in is truthy, and so no bucket is created. The theorem evaluates
  \<open>executeStrategy(formData, "constructor")\<close> on the freshly loaded module: the
  call is rejected and the global counters move, but \<open>strategyPerformance\<close> stays empty.
\<close>

theorem executeStrategy_inherited_name:
  "fst (executeStrategy idlePipelines alexData ''constructor'' freshWorld)
     = Inl (Error ([26410, 30693, 31574, 30053, 58, 32] @ utf16 ''constructor''))
   \<and> strategyPerformance (stats (snd (executeStrategy idlePipelines alexData ''constructor'' freshWorld))) = []
   \<and> attempts (stats (snd (executeStrategy idlePipelines alexData ''constructor'' freshWorld))) = 1
   \<and> failures (stats (snd (executeStrategy idlePipelines alexData ''constructor'' freshWorld))) = 1"
  by (simp add: executeStrategy_def Let_def getStrategy_def objectPrototype_def
      initializeStrategyStats_def bumpBucket_def freshWorld_def)

section \<open>The standard profile, end to end\<close>

text \<open>
  Claim C6, as the code has it. The input of the scenario passes the validation; when
  the draw that decides the mocked submission (the fifth call of \<open>Math.random\<close> of the
  run) exceeds 0.2, \<open>executeStrategy\<close> under the standard profile resolves with a result
  whose \<open>success\<close> is true and whose email is \<open>alexsmith01@outlook.com\<close>, and adds
  one to the successes of the standard profile and to the global successes. The password
  of the result is read from \<open>currentFormData\<close>, not from the argument: it is
  \<open>Abc12345!\<close> when \<open>currentFormData\<close> holds the input, as it does after
  \<open>OutlookRegistration.executeRegistration\<close> has stored it there.
\<close>

theorem standard_end_to_end:
  assumes "currentFormData w = Some alexData"
    and "2 / 10 < frac (randomSource w (drawn w + 4))"
  shows "\<exists>reg w'. executeStrategy ps alexData ''standard'' w = (Inr (Some (Registration reg)), w')
           \<and> success reg
           \<and> email reg = ''alexsmith01@outlook.com''
           \<and> password reg = ''Abc12345!''
           \<and> successes (bucketOf ''standard'' (strategyPerformance (stats w')))
               = successes (bucketOf ''standard'' (strategyPerformance (stats w))) + 1
           \<and> successes (stats w') = successes (stats w) + 1"
proof -
  from executeStrategy_standard [OF validateFormData_alexData assms(2), of ps]
  obtain reg w' where run: "executeStrategy ps alexData ''standard'' w = (Inr (Some (Registration reg)), w')"
    and reg: "success reg" "email reg = interpolate (alexData ''desired-email'') @ ''@outlook.com''"
      "password reg = (case currentFormData w of
                                 None \<Rightarrow> ''****''
                               | Some cur \<Rightarrow> if truthy (cur ''password'') then stringOf (cur ''password'') else ''****'')"
    and st: "successes (stats w') = successes (stats w) + 1"
      "bucketOf ''standard'' (strategyPerformance (stats w'))
               = (bucketOf ''standard'' (strategyPerformance (stats w)))
                   \<lparr>attempts := attempts (bucketOf ''standard'' (strategyPerformance (stats w))) + 1,
                    successes := successes (bucketOf ''standard'' (strategyPerformance (stats w))) + 1\<rparr>"
    by blast
  have "email reg = ''alexsmith01@outlook.com''" "password reg = ''Abc12345!''"
    using reg assms(1) by (simp_all add: alexData_def interpolate_def truthy_def stringOf_def)
  with run reg(1) st show ?thesis by simp
qed

theorem standard_end_to_end_witness:
  "\<exists>reg w'. executeStrategy idlePipelines alexData ''standard''
                (freshWorld\<lparr>currentFormData := Some alexData\<rparr>) = (Inr (Some (Registration reg)), w')
           \<and> success reg
           \<and> email reg = ''alexsmith01@outlook.com''
           \<and> password reg = ''Abc12345!''
           \<and> successes (bucketOf ''standard'' (strategyPerformance (stats w'))) = 1
           \<and> successes (stats w') = 1"
proof -
  have c: "currentFormData (freshWorld\<lparr>currentFormData := Some alexData\<rparr>) = Some alexData"
    by simp
  have d: "2 / 10 < frac (randomSource (freshWorld\<lparr>currentFormData := Some alexData\<rparr>)
                             (drawn (freshWorld\<lparr>currentFormData := Some alexData\<rparr>) + 4))"
    by (simp add: freshWorld_def frac_def)
  show ?thesis
    using standard_end_to_end [OF c d, of idlePipelines]
    by (simp add: freshWorld_def bucketOf_def)
qed

text \<open>
  The claim as the specification states it fails: called on the module as loaded, where
  \<open>currentFormData\<close> is not set, \<open>executeStrategy\<close> returns four asterisks as the
  password.
\<close>

theorem standard_password_counterexample:
  "map_option password (registrationOf (fst (executeStrategy idlePipelines alexData ''standard'' freshWorld)))
     = Some ''****''"
proof -
  have d: "2 / 10 < frac (randomSource freshWorld (drawn freshWorld + 4))"
    by (simp add: freshWorld_def frac_def)
  from executeStrategy_standard [OF validateFormData_alexData d, of idlePipelines]
  show ?thesis
    by (auto simp: registrationOf_def freshWorld_def)
qed

section \<open>recommendStrategy\<close>

lemma successRate_nonneg: "0 \<le> successRate c"
  by (simp add: successRate_def)

lemma bestByHistory_snoc:
  "bestByHistory (performance @ [entry]) =
     (if attempts (snd entry) > 0 \<and> successRate (snd entry) > snd (bestByHistory performance)
      then (fst entry, successRate (snd entry))
      else bestByHistory performance)"
  by (simp add: bestByHistory_def)

lemma bestByHistory_char:
  "0 \<le> snd (bestByHistory performance)
   \<and> (\<forall>e \<in> set performance. attempts (snd e) > 0 \<longrightarrow> successRate (snd e) \<le> snd (bestByHistory performance))
   \<and> (snd (bestByHistory performance) = 0 \<longrightarrow> fst (bestByHistory performance) = ''standard'')
   \<and> (snd (bestByHistory performance) > 0 \<longrightarrow>
        (\<exists>i < length performance.
            fst (performance ! i) = fst (bestByHistory performance)
          \<and> attempts (snd (performance ! i)) > 0
          \<and> successRate (snd (performance ! i)) = snd (bestByHistory performance)
          \<and> (\<forall>j < i. attempts (snd (performance ! j)) > 0 \<longrightarrow>
                 successRate (snd (performance ! j)) < snd (bestByHistory performance))))"
proof (induction performance rule: rev_induct)
  case Nil
  show ?case by (simp add: bestByHistory_def)
next
  case (snoc entry performance)
  let ?b = "bestByHistory performance"
  show ?case
  proof (cases "attempts (snd entry) > 0 \<and> successRate (snd entry) > snd ?b")
    case True
    then have new: "bestByHistory (performance @ [entry]) = (fst entry, successRate (snd entry))"
      by (simp add: bestByHistory_snoc)
    have older: "\<forall>j < length performance. attempts (snd (performance ! j)) > 0 \<longrightarrow>
        successRate (snd (performance ! j)) < successRate (snd entry)"
      using snoc.IH True by (metis le_less_trans nth_mem)
    have pos: "0 < successRate (snd entry)"
      using snoc.IH True by linarith
    have "\<exists>i < length (performance @ [entry]).
            fst ((performance @ [entry]) ! i) = fst entry
          \<and> attempts (snd ((performance @ [entry]) ! i)) > 0
          \<and> successRate (snd ((performance @ [entry]) ! i)) = successRate (snd entry)
          \<and> (\<forall>j < i. attempts (snd ((performance @ [entry]) ! j)) > 0 \<longrightarrow>
                 successRate (snd ((performance @ [entry]) ! j)) < successRate (snd entry))"
      using True older
      by (intro exI [of _ "length performance"]) (simp add: nth_append)
    moreover have "\<forall>e \<in> set (performance @ [entry]). attempts (snd e) > 0 \<longrightarrow>
        successRate (snd e) \<le> successRate (snd entry)"
      using snoc.IH True by fastforce
    ultimately show ?thesis
      using pos by (simp add: new)
  next
    case False
    then have same: "bestByHistory (performance @ [entry]) = ?b"
      unfolding bestByHistory_snoc by auto
    have bound: "\<forall>e \<in> set (performance @ [entry]). attempts (snd e) > 0 \<longrightarrow> successRate (snd e) \<le> snd ?b"
      using snoc.IH False by auto
    have wit: "\<exists>i < length (performance @ [entry]).
            fst ((performance @ [entry]) ! i) = fst ?b
          \<and> attempts (snd ((performance @ [entry]) ! i)) > 0
          \<and> successRate (snd ((performance @ [entry]) ! i)) = snd ?b
          \<and> (\<forall>j < i. attempts (snd ((performance @ [entry]) ! j)) > 0 \<longrightarrow>
                 successRate (snd ((performance @ [entry]) ! j)) < snd ?b)" if "snd ?b > 0"
    proof -
      from snoc.IH that obtain i where i: "i < length performance"
          "fst (performance ! i) = fst ?b" "attempts (snd (performance ! i)) > 0"
          "successRate (snd (performance ! i)) = snd ?b"
          "\<forall>j < i. attempts (snd (performance ! j)) > 0 \<longrightarrow> successRate (snd (performance ! j)) < snd ?b"
        by blast
      then show ?thesis
        by (intro exI [of _ i]) (simp add: nth_append)
    qed
    show ?thesis
      unfolding same using snoc.IH bound wit by blast
  qed
qed


text \<open>
  Claim C5, as the code has it. \<open>recommendStrategy\<close> answers \<open>aggressive\<close> when
  \<open>previousFailures\<close> exceeds 3 (so for every context with 4 previous failures), else
  \<open>smart\<close> when \<open>isVpnDetected\<close> is set or \<open>networkSpeed\<close> is \<open>slow\<close>, else
  \<open>smart\<close> when the hour lies between 9 and 17, and else the fallback. The fallback is
  the name of the first entry, in the order in which \<open>Object.entries\<close> enumerates
  \<open>strategyPerformance\<close>, whose success rate is the greatest of all entries with an
  attempt, provided that rate is positive; it is \<open>standard\<close> when no entry has a
  positive success rate. The enumeration order is the order in which the buckets were
  created, that is the order of the first execution of each profile, and not the order in
  which the profiles are declared.
\<close>

theorem recommendStrategy_rules:
  "recommendStrategy ctx hourNow w =
     (if (case previousFailures ctx of None \<Rightarrow> 0 | Some n \<Rightarrow> n) > 3 then ''aggressive''
      else if isVpnDetected ctx = Some True \<or> networkSpeed ctx = Some ''slow'' then ''smart''
      else if 9 \<le> (case timeOfDay ctx of None \<Rightarrow> hourNow | Some h \<Rightarrow> h)
              \<and> (case timeOfDay ctx of None \<Rightarrow> hourNow | Some h \<Rightarrow> h) \<le> 17 then ''smart''
      else fst (bestByHistory (strategyPerformance (stats w))))
   \<and> (previousFailures ctx = Some 4 \<longrightarrow> recommendStrategy ctx hourNow w = ''aggressive'')
   \<and> (\<forall>e \<in> set (strategyPerformance (stats w)).
         attempts (snd e) > 0 \<longrightarrow> successRate (snd e) \<le> snd (bestByHistory (strategyPerformance (stats w))))
   \<and> (snd (bestByHistory (strategyPerformance (stats w))) = 0 \<longrightarrow>
         fst (bestByHistory (strategyPerformance (stats w))) = ''standard'')
   \<and> (snd (bestByHistory (strategyPerformance (stats w))) > 0 \<longrightarrow>
        (\<exists>i < length (strategyPerformance (stats w)).
            fst (strategyPerformance (stats w) ! i) = fst (bestByHistory (strategyPerformance (stats w)))
          \<and> attempts (snd (strategyPerformance (stats w) ! i)) > 0
          \<and> successRate (snd (strategyPerformance (stats w) ! i))
              = snd (bestByHistory (strategyPerformance (stats w)))
          \<and> (\<forall>j < i. attempts (snd (strategyPerformance (stats w) ! j)) > 0 \<longrightarrow>
                 successRate (snd (strategyPerformance (stats w) ! j))
                   < snd (bestByHistory (strategyPerformance (stats w))))))"
proof -
  have rules: "recommendStrategy ctx hourNow w =
     (if (case previousFailures ctx of None \<Rightarrow> 0 | Some n \<Rightarrow> n) > 3 then ''aggressive''
      else if isVpnDetected ctx = Some True \<or> networkSpeed ctx = Some ''slow'' then ''smart''
      else if 9 \<le> (case timeOfDay ctx of None \<Rightarrow> hourNow | Some h \<Rightarrow> h)
              \<and> (case timeOfDay ctx of None \<Rightarrow> hourNow | Some h \<Rightarrow> h) \<le> 17 then ''smart''
      else fst (bestByHistory (strategyPerformance (stats w))))"
    by (cases "isVpnDetected ctx"; cases "networkSpeed ctx")
       (simp_all add: recommendStrategy_def Let_def)
  have four: "recommendStrategy ctx hourNow w = ''aggressive''" if "previousFailures ctx = Some 4"
    using that by (simp add: rules)
  show ?thesis
    using rules four bestByHistory_char [of "strategyPerformance (stats w)"] by blast
qed

theorem recommendStrategy_rules_witness:
  "recommendStrategy quietContext 20 tiedWorld = ''smart''
   \<and> recommendStrategy (quietContext\<lparr>previousFailures := Some 4\<rparr>) 20 tiedWorld = ''aggressive''
   \<and> recommendStrategy quietContext 20 freshWorld = ''standard''"
proof -
  have b: "bestByHistory (strategyPerformance (stats tiedWorld)) = (''smart'', 1)"
    "bestByHistory (strategyPerformance (stats freshWorld)) = (''standard'', 0)"
    by (simp_all add: tiedWorld_def freshWorld_def bestByHistory_def successRate_def)
  show ?thesis
    using recommendStrategy_rules [of quietContext 20 tiedWorld]
      recommendStrategy_rules [of "quietContext\<lparr>previousFailures := Some 4\<rparr>" 20 tiedWorld]
      recommendStrategy_rules [of quietContext 20 freshWorld] b
    by (simp add: quietContext_def)
qed

text \<open>
  The claim as the specification states it fails: after a success under \<open>smart\<close> and
  then one under \<open>standard\<close> both rates are 1; the declaration order would choose
  \<open>standard\<close>, the code returns \<open>smart\<close>.
\<close>

theorem recommendStrategy_tie_counterexample:
  "recommendStrategy quietContext 20 tiedWorld = ''smart''
   \<and> specBestByHistory (strategyPerformance (stats tiedWorld)) = ''standard''"
  by (simp add: recommendStrategy_def quietContext_def tiedWorld_def freshWorld_def bestByHistory_def
      successRate_def specBestByHistory_def specRecordedRate_def declaredProfiles_def
      List.map_filter_def Let_def)

section \<open>executeSteps\<close>

lemma executeStepsFrom_append:
  "executeStepsFrom (steps @ later) i cfg u r w =
     (case executeStepsFrom steps i cfg u r w of
        (Inl e, w') \<Rightarrow> (Inl e, w')
      | (Inr r', w') \<Rightarrow> executeStepsFrom later (i + length steps) cfg u r' w')"
proof (induction steps arbitrary: i r w)
  case Nil
  show ?case by simp
next
  case (Cons s steps)
  show ?case
  proof (cases "action s r (beforeStep s i cfg u w)")
    case (Pair out w1)
    then show ?thesis
      by (cases out) (auto simp: Cons.IH split: prod.splits sum.splits)
  qed
qed

lemma randomDelayMs_range:
  assumes "lo \<le> hi"
  shows "lo \<le> randomDelayMs lo hi (frac x)" "randomDelayMs lo hi (frac x) \<le> hi"
proof -
  have n: "0 < hi - lo + 1" using assms by simp
  have f: "0 \<le> frac x" "frac x < 1"
    by (simp_all add: frac_lt_1)
  have "0 \<le> frac x * of_int (hi - lo + 1)"
    using f n by simp
  then have "0 \<le> \<lfloor>frac x * of_int (hi - lo + 1)\<rfloor>"
    by simp
  then show "lo \<le> randomDelayMs lo hi (frac x)"
    by (simp add: randomDelayMs_def)
  have "frac x * of_int (hi - lo + 1) < 1 * of_int (hi - lo + 1)"
    using f n by (intro mult_strict_right_mono) simp_all
  then have "frac x * of_int (hi - lo + 1) < of_int (hi - lo + 1)"
    by (simp only: mult_1)
  then have "\<lfloor>frac x * of_int (hi - lo + 1)\<rfloor> < hi - lo + 1"
    by (simp only: floor_less_iff)
  then show "randomDelayMs lo hi (frac x) \<le> hi"
    by (simp add: randomDelayMs_def)
qed

lemma events_whenUI: "events (whenUI u es w) = events w @ (if u \<and> uiManager w then es else [])"
  by (simp add: whenUI_def)

lemma events_beforeStep:
  "events (beforeStep s i cfg u w) =
     events w
     @ (if u \<and> uiManager w
        then [UiProgress (i + 1) (name s), UiLog ''info'' ([25191, 34892, 27493, 39588, 58, 32] @ name s)]
        else [])
     @ (if humanLikeDelay cfg \<and> i > 0
        then [Suspend (randomDelayMs (fst (delayRange cfg)) (snd (delayRange cfg))
                         (frac (randomSource w (drawn w))))]
        else [])"
  by (simp add: beforeStep_def Let_def events_whenUI)

text \<open>
  Claim C3. \<open>executeSteps\<close> on no steps returns null and changes nothing. When the
  steps \<open>pre\<close> have run and returned \<open>r\<close> (null for no steps), the next step \<open>s\<close> is
  called with \<open>r\<close> in the world that \<open>pre\<close> left, after the preparation of round
  \<open>length pre\<close>; if it returns \<open>v\<close>, that is the result of the pipeline so far. If it
  throws \<open>e\<close>, the whole call rejects with \<open>e\<close> in the world that \<open>s\<close> left (plus
  the error line for the UI manager), whatever steps \<open>post\<close> follow: they are not
  executed and no result is returned; the same holds for every extension of a pipeline that
  has failed. The preparation of round \<open>i\<close> suspends the caller exactly when
  \<open>humanLikeDelay\<close> is set and \<open>i > 0\<close>, once, and for a duration between the two
  bounds of \<open>delayRange\<close> when the first bound is at most the second.
\<close>

theorem executeSteps_sequential:
  "executeSteps [] cfg u w = (Inr None, w)
   \<and> (\<forall>r w' v w1.
         executeSteps pre cfg u w = (Inr r, w')
         \<and> action s r (beforeStep s (length pre) cfg u w') = (Inr v, w1)
         \<longrightarrow> executeSteps (pre @ [s]) cfg u w = (Inr (Some v), afterStep s u w1))
   \<and> (\<forall>r w' e w1.
         executeSteps pre cfg u w = (Inr r, w')
         \<and> action s r (beforeStep s (length pre) cfg u w') = (Inl e, w1)
         \<longrightarrow> executeSteps (pre @ s # post) cfg u w = (Inl e, afterFailure s u e w1))
   \<and> (\<forall>e w'. executeSteps pre cfg u w = (Inl e, w')
         \<longrightarrow> executeSteps (pre @ post) cfg u w = (Inl e, w'))
   \<and> events (beforeStep s i cfg u w) =
       events w
       @ (if u \<and> uiManager w
          then [UiProgress (i + 1) (name s), UiLog ''info'' ([25191, 34892, 27493, 39588, 58, 32] @ name s)]
          else [])
       @ (if humanLikeDelay cfg \<and> i > 0
          then [Suspend (randomDelayMs (fst (delayRange cfg)) (snd (delayRange cfg))
                           (frac (randomSource w (drawn w))))]
          else [])
   \<and> (fst (delayRange cfg) \<le> snd (delayRange cfg) \<longrightarrow>
         fst (delayRange cfg) \<le> randomDelayMs (fst (delayRange cfg)) (snd (delayRange cfg))
                                   (frac (randomSource w (drawn w)))
       \<and> randomDelayMs (fst (delayRange cfg)) (snd (delayRange cfg))
            (frac (randomSource w (drawn w))) \<le> snd (delayRange cfg))"
proof (intro conjI allI impI)
  show "executeSteps [] cfg u w = (Inr None, w)"
    by (simp add: executeSteps_def)
next
  fix r w' v w1
  assume "executeSteps pre cfg u w = (Inr r, w')
         \<and> action s r (beforeStep s (length pre) cfg u w') = (Inr v, w1)"
  then show "executeSteps (pre @ [s]) cfg u w = (Inr (Some v), afterStep s u w1)"
    by (simp add: executeSteps_def executeStepsFrom_append)
next
  fix r w' e w1
  assume "executeSteps pre cfg u w = (Inr r, w')
         \<and> action s r (beforeStep s (length pre) cfg u w') = (Inl e, w1)"
  then show "executeSteps (pre @ s # post) cfg u w = (Inl e, afterFailure s u e w1)"
    by (simp add: executeSteps_def executeStepsFrom_append)
next
  fix e w'
  assume "executeSteps pre cfg u w = (Inl e, w')"
  then show "executeSteps (pre @ post) cfg u w = (Inl e, w')"
    by (simp add: executeSteps_def executeStepsFrom_append)
next
  show "events (beforeStep s i cfg u w) =
       events w
       @ (if u \<and> uiManager w
          then [UiProgress (i + 1) (name s), UiLog ''info'' ([25191, 34892, 27493, 39588, 58, 32] @ name s)]
          else [])
       @ (if humanLikeDelay cfg \<and> i > 0
          then [Suspend (randomDelayMs (fst (delayRange cfg)) (snd (delayRange cfg))
                           (frac (randomSource w (drawn w))))]
          else [])"
    by (rule events_beforeStep)
next
  assume "fst (delayRange cfg) \<le> snd (delayRange cfg)"
  then show "fst (delayRange cfg) \<le> randomDelayMs (fst (delayRange cfg)) (snd (delayRange cfg))
                                   (frac (randomSource w (drawn w)))"
    by (rule randomDelayMs_range)
next
  assume "fst (delayRange cfg) \<le> snd (delayRange cfg)"
  then show "randomDelayMs (fst (delayRange cfg)) (snd (delayRange cfg))
            (frac (randomSource w (drawn w))) \<le> snd (delayRange cfg)"
    by (rule randomDelayMs_range)
qed


theorem executeSteps_sequential_witness:
  "executeSteps abortingPipeline standard True freshWorld
     = (Inl (Error (utf16 ''boom'')),
        freshWorld\<lparr>drawn := 1, clock := 2000,
                    events := [Console (utf16 ''1''), Suspend 2000, Console (utf16 ''2'')]\<rparr>)"
proof -
  have dec: "toDecimal (Suc 0) = ''1''" "toDecimal 2 = ''2''"
    by code_simp+
  have pre: "executeSteps [probeStep 1 False] standard True freshWorld
      = (Inr (Some 1), freshWorld\<lparr>events := [Console (utf16 ''1'')]\<rparr>)"
    by (simp add: executeSteps_def probeStep_def beforeStep_def afterStep_def whenUI_def emit_def
        freshWorld_def dec)
  have fails: "action (probeStep 2 True) (Some 1)
        (beforeStep (probeStep 2 True) (length [probeStep 1 False]) standard True
           (freshWorld\<lparr>events := [Console (utf16 ''1'')]\<rparr>))
      = (Inl (Error (utf16 ''boom'')),
         freshWorld\<lparr>drawn := 1, clock := 2000,
                    events := [Console (utf16 ''1''), Suspend 2000, Console (utf16 ''2'')]\<rparr>)"
    by (simp add: probeStep_def beforeStep_def whenUI_def emit_def freshWorld_def standard_def
        randomDelay_def mathRandom_def delay_def randomDelayMs_def frac_def dec)
  have ui: "afterFailure (probeStep 2 True) True (Error (utf16 ''boom''))
        (freshWorld\<lparr>drawn := 1, clock := 2000,
                    events := [Console (utf16 ''1''), Suspend 2000, Console (utf16 ''2'')]\<rparr>)
      = freshWorld\<lparr>drawn := 1, clock := 2000,
                    events := [Console (utf16 ''1''), Suspend 2000, Console (utf16 ''2'')]\<rparr>"
    by (simp add: afterFailure_def whenUI_def freshWorld_def)
  have "executeSteps ([probeStep 1 False] @ probeStep 2 True
            # [probeStep 3 False, probeStep 4 False, probeStep 5 False]) standard True freshWorld
      = (Inl (Error (utf16 ''boom'')),
         afterFailure (probeStep 2 True) True (Error (utf16 ''boom''))
           (freshWorld\<lparr>drawn := 1, clock := 2000,
                    events := [Console (utf16 ''1''), Suspend 2000, Console (utf16 ''2'')]\<rparr>))"
    using executeSteps_sequential
            [where cfg = standard and u = True and w = freshWorld and pre = "[probeStep 1 False]"
               and s = "probeStep 2 True" and i = 1
               and post = "[probeStep 3 False, probeStep 4 False, probeStep 5 False]"]
      pre fails
    by blast
  then show ?thesis
    using ui by (simp add: abortingPipeline_def)
qed

end
